theory Spec2Isabelle
  imports Main
begin

section \<open>The upload page script \<^verbatim>\<open>main_page.js\<close>\<close>

text \<open>
  The script binds one handler to the change event of the file input
  \<^verbatim>\<open>#upload-file-input\<close>. The handler validates the selected file, writes its verdict
  into the element \<^verbatim>\<open>#outcome-text\<close> and, for a valid file, posts it with
  \<^verbatim>\<open>$.ajax\<close>; the callback registered with \<^verbatim>\<open>.done\<close> reads the reply.

  The embedding passes the page state explicitly. Every write of the script (a jQuery call
  on \<^verbatim>\<open>outcomeText\<close>, the request, the assignment to \<^verbatim>\<open>window.location.href\<close>) is an
  \<open>effect\<close>; performing it updates the element and appends it to a log, so that the order
  of the writes can be stated. A thrown exception is a value of \<open>completion\<close>.
\<close>

subsection \<open>Strings\<close>

text \<open>
  Strings are lists of \<open>char\<close>; the model covers ASCII text. \<^verbatim>\<open>toUpperCase\<close> maps the
  letters a..z to A..Z and keeps every other ASCII character (characters outside ASCII,
  which JavaScript upper-cases by the Unicode tables, are kept as they are and are outside
  the model).
\<close>

definition toUpperCase_char :: "char \<Rightarrow> char" where
  "toUpperCase_char c =
     (case map_of (zip ''abcdefghijklmnopqrstuvwxyz'' ''ABCDEFGHIJKLMNOPQRSTUVWXYZ'') c of
        None \<Rightarrow> c
      | Some u \<Rightarrow> u)"

definition toUpperCase :: "string \<Rightarrow> string" where
  "toUpperCase s = map toUpperCase_char s"

text \<open>
  \<^verbatim>\<open>s.split(".")\<close>: the segments of \<open>s\<close> between the separators, from left to right;
  \<open>cur\<close> is the segment being read. The result is never empty (\<^verbatim>\<open>"".split(".")\<close> is
  \<^verbatim>\<open>[""]\<close>).
\<close>

fun split_from :: "char \<Rightarrow> string \<Rightarrow> string \<Rightarrow> string list" where
  "split_from sep cur [] = [cur]"
| "split_from sep cur (c # cs) =
     (if c = sep then cur # split_from sep [] cs else split_from sep (cur @ [c]) cs)"

definition split_str :: "char \<Rightarrow> string \<Rightarrow> string list" where
  "split_str sep s = split_from sep [] s"

text \<open>\<^verbatim>\<open>xs.pop()\<close>: the last element, \<^verbatim>\<open>undefined\<close> (here \<open>None\<close>) for an empty array.\<close>

definition pop :: "'a list \<Rightarrow> 'a option" where
  "pop xs = (case xs of [] \<Rightarrow> None | _ # _ \<Rightarrow> Some (last xs))"

text \<open>\<^verbatim>\<open>xs.includes(x)\<close> on an array of strings.\<close>

definition includes_str :: "string list \<Rightarrow> string \<Rightarrow> bool" where
  "includes_str xs x = (x \<in> set xs)"

text \<open>
  An array of strings inside a template literal is converted by \<^verbatim>\<open>Array.prototype.toString\<close>:
  its elements joined by commas.
\<close>

fun array_toString :: "string list \<Rightarrow> string" where
  "array_toString [] = []"
| "array_toString [x] = x"
| "array_toString (x # y # ys) = x @ '','' @ array_toString (y # ys)"

subsection \<open>The page: configuration, file input, outcome element\<close>

text \<open>
  \<^verbatim>\<open>ACCEPTED_FILE_TYPES\<close> and \<^verbatim>\<open>MAX_AUDIO_FILE_SIZE\<close> are globals that the page defines
  before the script runs; the script only reads them, so they are parameters here: an array
  of strings, and an object with a byte count \<^verbatim>\<open>"Value"\<close> and a label \<^verbatim>\<open>"Name"\<close>.
  A byte count is a natural number, and \<^verbatim>\<open>>\<close> compares numbers.
\<close>

record max_size =
  Value :: nat
  Name :: string

record config =
  ACCEPTED_FILE_TYPES :: "string list"
  MAX_AUDIO_FILE_SIZE :: max_size

text \<open>A \<^verbatim>\<open>File\<close> of the input's \<^verbatim>\<open>FileList\<close>: the two attributes the script reads.\<close>

record selected_file =
  name :: string
  size_bytes :: nat

text \<open>
  The file input as the handler sees it: \<^verbatim>\<open>uploadFileInput.val()\<close> and
  \<^verbatim>\<open>uploadFileInput[0].files\<close>. The script tests the first and reads the second, so both
  are fields; no relation between them is assumed.
\<close>

record file_input =
  val :: string
  files :: "selected_file list"

text \<open>
  What a browser gives as the value of a file input whose first file has the name \<open>n\<close>:
  the name after the fixed prefix C:, backslash, fakepath, backslash (the character \<open>0x5C\<close>
  is the backslash).
  It is used for the concrete inputs below.
\<close>

definition fakepath :: "string \<Rightarrow> string" where
  "fakepath n = ''C:'' @ [CHR 0x5C] @ ''fakepath'' @ [CHR 0x5C] @ n"

text \<open>
  The element \<^verbatim>\<open>#outcome-text\<close>: its text and the tokens of its class attribute (which may
  hold classes that the script never touches).
\<close>

record element =
  text_content :: string
  classes :: "string list"

text \<open>The settings object given to \<^verbatim>\<open>$.ajax\<close>; \<open>data\<close> is the FormData's entry list.\<close>

record request =
  url :: string
  http_method :: string
  data :: "(string \<times> selected_file) list"
  contentType :: bool
  processData :: bool

datatype effect =
    Text string
  | RemoveClass string
  | AddClass string
  | Ajax request
  | Href string
  | Href_throws string

text \<open>
  jQuery's \<^verbatim>\<open>text(s)\<close> replaces the text, \<^verbatim>\<open>removeClass(c)\<close> removes every occurrence of
  the token, \<^verbatim>\<open>addClass(c)\<close> appends the token unless it is present. A request and an
  assignment to \<^verbatim>\<open>window.location.href\<close> do not touch the element. \<open>Href u\<close> is an
  assignment of \<open>u\<close> that starts a navigation, \<open>Href_throws u\<close> one that the setter
  refuses with an exception.
\<close>

fun apply_effect :: "effect \<Rightarrow> element \<Rightarrow> element" where
  "apply_effect (Text s) el = el\<lparr>text_content := s\<rparr>"
| "apply_effect (RemoveClass c) el = el\<lparr>classes := filter (\<lambda>x. x \<noteq> c) (classes el)\<rparr>"
| "apply_effect (AddClass c) el =
     (if c \<in> set (classes el) then el else el\<lparr>classes := classes el @ [c]\<rparr>)"
| "apply_effect (Ajax r) el = el"
| "apply_effect (Href u) el = el"
| "apply_effect (Href_throws u) el = el"

record world =
  outcomeText :: element
  effects :: "effect list"

definition perform :: "effect \<Rightarrow> world \<Rightarrow> world" where
  "perform e w =
     \<lparr>outcomeText = apply_effect e (outcomeText w), effects = effects w @ [e]\<rparr>"

definition text_set :: "string \<Rightarrow> world \<Rightarrow> world" where
  "text_set s = perform (Text s)"

definition removeClass :: "string \<Rightarrow> world \<Rightarrow> world" where
  "removeClass c = perform (RemoveClass c)"

definition addClass :: "string \<Rightarrow> world \<Rightarrow> world" where
  "addClass c = perform (AddClass c)"

definition ajax :: "request \<Rightarrow> world \<Rightarrow> world" where
  "ajax r = perform (Ajax r)"

text \<open>
  What the log says was sent, where the browser started to go, and every string that was
  assigned to \<^verbatim>\<open>window.location.href\<close>.
\<close>

fun requests_of :: "effect list \<Rightarrow> request list" where
  "requests_of [] = []"
| "requests_of (Ajax r # es) = r # requests_of es"
| "requests_of (e # es) = requests_of es"

fun navigations_of :: "effect list \<Rightarrow> string list" where
  "navigations_of [] = []"
| "navigations_of (Href u # es) = u # navigations_of es"
| "navigations_of (e # es) = navigations_of es"

fun assignments_of :: "effect list \<Rightarrow> string list" where
  "assignments_of [] = []"
| "assignments_of (Href u # es) = u # assignments_of es"
| "assignments_of (Href_throws u # es) = u # assignments_of es"
| "assignments_of (e # es) = assignments_of es"

definition requests :: "world \<Rightarrow> request list" where
  "requests w = requests_of (effects w)"

definition navigations :: "world \<Rightarrow> string list" where
  "navigations w = navigations_of (effects w)"

definition assignments :: "world \<Rightarrow> string list" where
  "assignments w = assignments_of (effects w)"

definition has_class :: "string \<Rightarrow> world \<Rightarrow> bool" where
  "has_class c w = (c \<in> set (classes (outcomeText w)))"

subsection \<open>The change handler\<close>

datatype js_error = TypeError | SyntaxError | DOMException_SyntaxError

datatype completion = Returned | Threw js_error

definition type_message :: "config \<Rightarrow> string" where
  "type_message cfg =
     ''File uploaded not of accepted file type. Accepted: ''
       @ array_toString (ACCEPTED_FILE_TYPES cfg) @ ''.''"

definition size_message :: "config \<Rightarrow> string" where
  "size_message cfg =
     ''File is too big; please select a file that is smaller than ''
       @ Name (MAX_AUDIO_FILE_SIZE cfg) @ ''.''"

text \<open>
  \<^verbatim>\<open>files[0].name.split(".").pop().toUpperCase()\<close>. Reading \<^verbatim>\<open>name\<close> of a missing
  \<^verbatim>\<open>files[0]\<close> and calling \<^verbatim>\<open>toUpperCase\<close> on a missing last segment throw a TypeError.
\<close>

definition extension :: "selected_file list \<Rightarrow> js_error + string" where
  "extension fs =
     (case fs of
        [] \<Rightarrow> Inl TypeError
      | f # _ \<Rightarrow>
          (case pop (split_str CHR ''.'' (name f)) of
             None \<Rightarrow> Inl TypeError
           | Some seg \<Rightarrow> Inr (toUpperCase seg)))"

definition upload_request :: "selected_file \<Rightarrow> request" where
  "upload_request f =
     \<lparr>url = ''/api/upload-file'', http_method = ''POST'', data = [(''file'', f)],
      contentType = False, processData = False\<rparr>"

definition change_handler :: "config \<Rightarrow> file_input \<Rightarrow> world \<Rightarrow> completion \<times> world" where
  "change_handler cfg inp w0 =
     (let w1 = text_set [] w0;
          w2 = removeClass ''error-text'' w1;
          w3 = removeClass ''success-text'' w2
      in
        if val inp = [] then
          (Returned, addClass ''error-text'' (text_set ''You must select a file.'' w3))
        else
          (case extension (files inp) of
             Inl e \<Rightarrow> (Threw e, w3)
           | Inr ext \<Rightarrow>
               if \<not> includes_str (ACCEPTED_FILE_TYPES cfg) ext then
                 (Returned, addClass ''error-text'' (text_set (type_message cfg) w3))
               else
                 (case files inp of
                    [] \<Rightarrow> (Threw TypeError, w3)
                  | f # _ \<Rightarrow>
                      if size_bytes f > Value (MAX_AUDIO_FILE_SIZE cfg) then
                        (Returned, addClass ''error-text'' (text_set (size_message cfg) w3))
                      else
                        (Returned, ajax (upload_request f) (text_set [] w3)))))"

subsection \<open>The reply\<close>

text \<open>
  The callback given to \<^verbatim>\<open>.done\<close> calls \<^verbatim>\<open>JSON.parse\<close> on what jQuery hands it and
  reads three properties of the result. \<^verbatim>\<open>JSON.parse\<close> is the runtime's; the model takes
  its result: a SyntaxError, \<^verbatim>\<open>null\<close> (whose properties cannot be read), or any other
  value, given by what reading a property of it yields (\<open>None\<close> for \<^verbatim>\<open>undefined\<close>: a
  missing property, and every property named here of a number, boolean, string or array).

  A property value is \<^verbatim>\<open>null\<close>, a string, or another value (boolean, number, array,
  object), which is carried as the string that the runtime converts it to; it is never
  \<^verbatim>\<open>===\<close> to a string.
\<close>

datatype js_value = Null | Str string | Other string

datatype parsed =
    Unparsable
  | Null_data
  | Data "string \<rightharpoonup> js_value"

text \<open>
  \<^verbatim>\<open>outcomeText.text(v)\<close> for a property value: with \<^verbatim>\<open>undefined\<close> jQuery's \<^verbatim>\<open>text\<close> is
  the getter and writes nothing; \<^verbatim>\<open>null\<close> as text content is the empty string.
\<close>

definition text_value :: "js_value option \<Rightarrow> world \<Rightarrow> world" where
  "text_value v w =
     (case v of
        None \<Rightarrow> w
      | Some Null \<Rightarrow> text_set [] w
      | Some (Str s) \<Rightarrow> text_set s w
      | Some (Other s) \<Rightarrow> text_set s w)"

text \<open>The string that \<^verbatim>\<open>window.location.href = v\<close> assigns for a property value.\<close>

definition href_string :: "js_value option \<Rightarrow> string" where
  "href_string v =
     (case v of
        None \<Rightarrow> ''undefined''
      | Some Null \<Rightarrow> ''null''
      | Some (Str s) \<Rightarrow> s
      | Some (Other s) \<Rightarrow> s)"

text \<open>
  The setter of \<^verbatim>\<open>window.location.href\<close> parses the string against the address of the
  document. When the string does not parse (\<^verbatim>\<open>http://\<close>, a scheme with no host) the setter
  throws a SyntaxError DOMException and nothing is navigated; otherwise the navigation
  starts. The parser is the browser's, so it is a parameter: \<open>parses u\<close> says whether \<open>u\<close>
  parses.
\<close>

type_synonym url_parser = "string \<Rightarrow> bool"

definition location_href :: "url_parser \<Rightarrow> string \<Rightarrow> world \<Rightarrow> completion \<times> world" where
  "location_href parses u w =
     (if parses u then (Returned, perform (Href u) w)
      else (Threw DOMException_SyntaxError, perform (Href_throws u) w))"

text \<open>
  A parser for the concrete runs below: it refuses \<^verbatim>\<open>http://\<close> and accepts every other
  string, among them the references \<^verbatim>\<open>/next\<close>, \<^verbatim>\<open>#top\<close> and \<^verbatim>\<open>undefined\<close>, which a browser
  resolves against the address of the page.
\<close>

definition refuses_missing_host :: url_parser where
  "refuses_missing_host u = (u \<noteq> ''http://'')"

definition done_callback :: "url_parser \<Rightarrow> parsed \<Rightarrow> world \<Rightarrow> completion \<times> world" where
  "done_callback parses d w =
     (case d of
        Unparsable \<Rightarrow> (Threw SyntaxError, w)
      | Null_data \<Rightarrow> (Threw TypeError, w)
      | Data props \<Rightarrow>
          if props ''outcome'' = Some (Str ''error'') then
            (Returned, addClass ''error-text'' (text_value (props ''msg'') w))
          else
            location_href parses (href_string (props ''url''))
              (addClass ''success-text'' (text_value (props ''msg'') w)))"

text \<open>
  How a request ends. jQuery either rejects it (no connection, a timeout, a status it counts
  as a failure) or resolves it with the reply. The script registers \<^verbatim>\<open>.done\<close> only, so a
  rejected request runs no code of the script (\<open>None\<close>: nothing ran).
\<close>

datatype reply = Rejected | Resolved parsed

definition settle :: "url_parser \<Rightarrow> reply \<Rightarrow> world \<Rightarrow> completion option \<times> world" where
  "settle parses r w =
     (case r of
        Rejected \<Rightarrow> (None, w)
      | Resolved d \<Rightarrow> (case done_callback parses d w of (c, w') \<Rightarrow> (Some c, w')))"

subsection \<open>The event loop\<close>

text \<open>
  The browser runs one handler at a time: a change event runs the change handler, the end of
  a request runs \<open>settle\<close>. The number counts the requests that have ended; a request can
  end only after it was sent, otherwise the sequence of events is impossible (\<open>None\<close>). A
  thrown exception ends its handler and leaves the page as the handler's writes made it.
\<close>

datatype event = Change file_input | Settle reply

fun run ::
  "config \<Rightarrow> url_parser \<Rightarrow> event list \<Rightarrow> world \<times> nat \<Rightarrow> (world \<times> nat) option" where
  "run cfg parses [] s = Some s"
| "run cfg parses (Change inp # es) (w, n) =
     run cfg parses es (snd (change_handler cfg inp w), n)"
| "run cfg parses (Settle r # es) (w, n) =
     (if n < length (requests w) then run cfg parses es (snd (settle parses r w), Suc n)
      else None)"

text \<open>The element after a sequence of writes, for the states in the middle of a handler.\<close>

definition replay :: "effect list \<Rightarrow> element \<Rightarrow> element" where
  "replay es el = foldl (\<lambda>d e. apply_effect e d) el es"

definition both_classes :: "element \<Rightarrow> bool" where
  "both_classes el =
     (''error-text'' \<in> set (classes el) \<and> ''success-text'' \<in> set (classes el))"

subsection \<open>The specification's terms\<close>

text \<open>
  The extension in the specification's words: the substring of the file name after the
  final dot (all of the name when it has no dot).
\<close>

definition substring_after_final_dot :: "string \<Rightarrow> string" where
  "substring_after_final_dot n = rev (takeWhile (\<lambda>c. c \<noteq> CHR ''.'') (rev n))"

text \<open>Two strings compared case-insensitively.\<close>

definition same_ignoring_case :: "string \<Rightarrow> string \<Rightarrow> bool" where
  "same_ignoring_case a b = (toUpperCase a = toUpperCase b)"

text \<open>
  The three validation checks in the specification's words: a file is selected, its
  upper-cased extension is a member of the accepted types, and its size is at most the limit.
\<close>

definition passes_checks :: "config \<Rightarrow> file_input \<Rightarrow> bool" where
  "passes_checks cfg inp =
     (val inp \<noteq> [] \<and>
      (case files inp of
         [] \<Rightarrow> False
       | f # _ \<Rightarrow>
           toUpperCase (substring_after_final_dot (name f)) \<in> set (ACCEPTED_FILE_TYPES cfg) \<and>
           size_bytes f \<le> Value (MAX_AUDIO_FILE_SIZE cfg)))"

section \<open>Properties\<close>

subsection \<open>Strings and the extension\<close>

lemma toUpperCase_char_idem: "toUpperCase_char (toUpperCase_char c) = toUpperCase_char c"
  by (simp add: toUpperCase_char_def)

lemma toUpperCase_idem: "toUpperCase (toUpperCase s) = toUpperCase s"
  by (simp add: toUpperCase_def toUpperCase_char_idem)

lemma split_from_nonempty: "split_from sep cur s \<noteq> []"
  by (induction s arbitrary: cur) auto

lemma suffix_after_absent:
  "sep \<notin> set s \<Longrightarrow> rev (takeWhile (\<lambda>c. c \<noteq> sep) (rev s)) = s"
proof -
  assume a: "sep \<notin> set s"
  have "takeWhile (\<lambda>c. c \<noteq> sep) (rev s) = rev s"
    using a by (auto simp: takeWhile_eq_all_conv)
  then show ?thesis by (simp only: rev_rev_ident)
qed

lemma last_split_from:
  "last (split_from sep cur s) =
     (if sep \<in> set s then rev (takeWhile (\<lambda>c. c \<noteq> sep) (rev s)) else cur @ s)"
  by (induction s arbitrary: cur)
     (auto simp: split_from_nonempty takeWhile_tail suffix_after_absent)

lemma pop_split_str:
  "pop (split_str sep s) =
     Some (if sep \<in> set s then rev (takeWhile (\<lambda>c. c \<noteq> sep) (rev s)) else s)"
  using split_from_nonempty [of sep "[]" s] last_split_from [of sep "[]" s]
  by (auto simp: pop_def split_str_def split: list.splits)

subsection \<open>The five ways through the change handler\<close>

lemmas dom_defs = text_set_def removeClass_def addClass_def ajax_def location_href_def perform_def


lemma change_no_file:
  "val inp = [] \<Longrightarrow> change_handler cfg inp w =
     (Returned,
      \<lparr>outcomeText = \<lparr>text_content = ''You must select a file.'',
          classes = filter (\<lambda>x. x \<noteq> ''success-text'') (filter (\<lambda>x. x \<noteq> ''error-text'') (classes (outcomeText w))) @ [''error-text'']\<rparr>,
       effects = effects w @ [Text [], RemoveClass ''error-text'', RemoveClass ''success-text'',
          Text ''You must select a file.'', AddClass ''error-text'']\<rparr>)"
  by (simp add: change_handler_def dom_defs)

lemma extension_Cons:
  "extension (f # fs) =
     Inr (toUpperCase (if CHR ''.'' \<in> set (name f)
        then rev (takeWhile (\<lambda>c. c \<noteq> CHR ''.'') (rev (name f))) else name f))"
  by (simp add: extension_def pop_split_str)

lemma change_bad_type:
  "val inp \<noteq> [] \<Longrightarrow> files inp = f # fs \<Longrightarrow> extension (files inp) = Inr e \<Longrightarrow>
   e \<notin> set (ACCEPTED_FILE_TYPES cfg) \<Longrightarrow>
   change_handler cfg inp w =
     (Returned,
      \<lparr>outcomeText = \<lparr>text_content = type_message cfg,
          classes = filter (\<lambda>x. x \<noteq> ''success-text'') (filter (\<lambda>x. x \<noteq> ''error-text'') (classes (outcomeText w))) @ [''error-text'']\<rparr>,
       effects = effects w @ [Text [], RemoveClass ''error-text'', RemoveClass ''success-text'',
          Text (type_message cfg), AddClass ''error-text'']\<rparr>)"
  by (simp add: change_handler_def dom_defs includes_str_def)

lemma change_too_big:
  "val inp \<noteq> [] \<Longrightarrow> files inp = f # fs \<Longrightarrow> extension (files inp) = Inr e \<Longrightarrow>
   e \<in> set (ACCEPTED_FILE_TYPES cfg) \<Longrightarrow> size_bytes f > Value (MAX_AUDIO_FILE_SIZE cfg) \<Longrightarrow>
   change_handler cfg inp w =
     (Returned,
      \<lparr>outcomeText = \<lparr>text_content = size_message cfg,
          classes = filter (\<lambda>x. x \<noteq> ''success-text'') (filter (\<lambda>x. x \<noteq> ''error-text'') (classes (outcomeText w))) @ [''error-text'']\<rparr>,
       effects = effects w @ [Text [], RemoveClass ''error-text'', RemoveClass ''success-text'',
          Text (size_message cfg), AddClass ''error-text'']\<rparr>)"
  by (simp add: change_handler_def dom_defs includes_str_def)

lemma change_upload:
  "val inp \<noteq> [] \<Longrightarrow> files inp = f # fs \<Longrightarrow> extension (files inp) = Inr e \<Longrightarrow>
   e \<in> set (ACCEPTED_FILE_TYPES cfg) \<Longrightarrow> size_bytes f \<le> Value (MAX_AUDIO_FILE_SIZE cfg) \<Longrightarrow>
   change_handler cfg inp w =
     (Returned,
      \<lparr>outcomeText = \<lparr>text_content = [],
          classes = filter (\<lambda>x. x \<noteq> ''success-text'') (filter (\<lambda>x. x \<noteq> ''error-text'') (classes (outcomeText w)))\<rparr>,
       effects = effects w @ [Text [], RemoveClass ''error-text'', RemoveClass ''success-text'',
          Text [], Ajax (upload_request f)]\<rparr>)"
  by (simp add: change_handler_def dom_defs includes_str_def)

lemma change_no_files:
  "val inp \<noteq> [] \<Longrightarrow> files inp = [] \<Longrightarrow>
   change_handler cfg inp w =
     (Threw TypeError,
      \<lparr>outcomeText = \<lparr>text_content = [],
          classes = filter (\<lambda>x. x \<noteq> ''success-text'') (filter (\<lambda>x. x \<noteq> ''error-text'') (classes (outcomeText w)))\<rparr>,
       effects = effects w @ [Text [], RemoveClass ''error-text'', RemoveClass ''success-text'']\<rparr>)"
  by (simp add: change_handler_def dom_defs extension_def)

lemma requests_of_append: "requests_of (xs @ ys) = requests_of xs @ requests_of ys"
  by (induction xs rule: requests_of.induct) auto

lemma assignments_of_append: "assignments_of (xs @ ys) = assignments_of xs @ assignments_of ys"
  by (induction xs rule: assignments_of.induct) auto

lemma navigations_of_append: "navigations_of (xs @ ys) = navigations_of xs @ navigations_of ys"
  by (induction xs rule: navigations_of.induct) auto

lemma messages_differ:
  "type_message cfg \<noteq> []" "size_message cfg \<noteq> []" "type_message cfg \<noteq> size_message cfg'"
  by (simp_all add: type_message_def size_message_def)

lemma extension_spec:
  "extension (f # fs) = Inr (toUpperCase (substring_after_final_dot (name f)))"
  by (simp add: extension_Cons substring_after_final_dot_def suffix_after_absent)

lemma change_accepted_text:
  assumes "val inp \<noteq> []" and "files inp = f # fs"
    and "extension (files inp) = Inr e" and "e \<in> set (ACCEPTED_FILE_TYPES cfg)"
  shows "text_content (outcomeText (snd (change_handler cfg inp w))) \<noteq> type_message cfg"
proof (cases "size_bytes f > Value (MAX_AUDIO_FILE_SIZE cfg)")
  case True
  show ?thesis
    using messages_differ(3) [of cfg cfg]
    by (simp add: change_too_big [OF assms True])
next
  case False
  then have le: "size_bytes f \<le> Value (MAX_AUDIO_FILE_SIZE cfg)"
    by simp
  show ?thesis
    using messages_differ(1) [of cfg]
    by (simp add: change_upload [OF assms le])
qed

lemma change_passes:
  assumes "passes_checks cfg inp"
  obtains f fs where "files inp = f # fs"
    and  "change_handler cfg inp w =
     (Returned,
      \<lparr>outcomeText = \<lparr>text_content = [],
          classes = filter (\<lambda>x. x \<noteq> ''success-text'')
            (filter (\<lambda>x. x \<noteq> ''error-text'') (classes (outcomeText w)))\<rparr>,
       effects = effects w @ [Text [], RemoveClass ''error-text'', RemoveClass ''success-text'',
          Text [], Ajax (upload_request f)]\<rparr>)"
proof -
  from assms obtain f fs where sel: "val inp \<noteq> []" and fs: "files inp = f # fs"
    and ok: "toUpperCase (substring_after_final_dot (name f)) \<in> set (ACCEPTED_FILE_TYPES cfg)"
    and le: "size_bytes f \<le> Value (MAX_AUDIO_FILE_SIZE cfg)"
    by (auto simp: passes_checks_def split: list.splits)
  have ext: "extension (files inp) = Inr (toUpperCase (substring_after_final_dot (name f)))"
    using fs by (simp add: extension_spec)
  show ?thesis
    by (rule that [OF fs change_upload [OF sel fs ext ok le]])
qed

subsection \<open>The upload request\<close>

text \<open>
  Claim C1. When a file is selected, its upper-cased extension is a member of the accepted
  types and its size is at most the limit, the change handler sends exactly one request: a
  POST to \<^verbatim>\<open>/api/upload-file\<close> whose form data is the single entry \<^verbatim>\<open>file\<close> holding the
  selected file. In every other case it sends none.
\<close>

theorem valid_file_single_post:
  "(passes_checks cfg inp \<longrightarrow>
      (\<exists>f fs. files inp = f # fs \<and>
         requests (snd (change_handler cfg inp w)) =
           requests w @ [\<lparr>url = ''/api/upload-file'', http_method = ''POST'',
                          data = [(''file'', f)], contentType = False, processData = False\<rparr>]))
   \<and> (\<not> passes_checks cfg inp \<longrightarrow> requests (snd (change_handler cfg inp w)) = requests w)"
proof (cases "val inp = []")
  case True
  then show ?thesis
    by (simp add: passes_checks_def change_no_file requests_def requests_of_append)
next
  case selected: False
  show ?thesis
  proof (cases "files inp")
    case Nil
    with selected show ?thesis
      by (simp add: passes_checks_def change_no_files requests_def requests_of_append)
  next
    case (Cons f fs)
    let ?e = "toUpperCase (substring_after_final_dot (name f))"
    have ext: "extension (files inp) = Inr ?e"
      using Cons by (simp add: extension_spec)
    consider (bad) "?e \<notin> set (ACCEPTED_FILE_TYPES cfg)"
      | (big) "?e \<in> set (ACCEPTED_FILE_TYPES cfg)"
              "size_bytes f > Value (MAX_AUDIO_FILE_SIZE cfg)"
      | (ok) "?e \<in> set (ACCEPTED_FILE_TYPES cfg)"
              "size_bytes f \<le> Value (MAX_AUDIO_FILE_SIZE cfg)"
      by fastforce
    then show ?thesis
    proof cases
      case bad
      then show ?thesis
        using selected Cons change_bad_type [OF selected Cons ext bad, of w]
        by (simp add: passes_checks_def requests_def requests_of_append)
    next
      case big
      then show ?thesis
        using selected Cons change_too_big [OF selected Cons ext big, of w]
        by (simp add: passes_checks_def requests_def requests_of_append)
    next
      case ok
      then show ?thesis
        using selected Cons change_upload [OF selected Cons ext ok, of w]
        by (simp add: passes_checks_def requests_def requests_of_append upload_request_def)
    qed
  qed
qed

theorem valid_file_single_post_witness:
  "passes_checks
     \<lparr>ACCEPTED_FILE_TYPES = [''MP3'', ''WAV''],
      MAX_AUDIO_FILE_SIZE = \<lparr>Value = 1000, Name = ''1 kB''\<rparr>\<rparr>
     \<lparr>val = fakepath ''song.mp3'', files = [\<lparr>name = ''song.mp3'', size_bytes = 1000\<rparr>]\<rparr>
   \<and> requests (snd (change_handler
     \<lparr>ACCEPTED_FILE_TYPES = [''MP3'', ''WAV''],
      MAX_AUDIO_FILE_SIZE = \<lparr>Value = 1000, Name = ''1 kB''\<rparr>\<rparr>
     \<lparr>val = fakepath ''song.mp3'', files = [\<lparr>name = ''song.mp3'', size_bytes = 1000\<rparr>]\<rparr>
     \<lparr>outcomeText = \<lparr>text_content = [], classes = []\<rparr>, effects = []\<rparr>))
     = [\<lparr>url = ''/api/upload-file'', http_method = ''POST'',
         data = [(''file'', \<lparr>name = ''song.mp3'', size_bytes = 1000\<rparr>)],
         contentType = False, processData = False\<rparr>]
   \<and> \<not> passes_checks
     \<lparr>ACCEPTED_FILE_TYPES = [''MP3'', ''WAV''],
      MAX_AUDIO_FILE_SIZE = \<lparr>Value = 1000, Name = ''1 kB''\<rparr>\<rparr>
     \<lparr>val = fakepath ''song.mp3'', files = [\<lparr>name = ''song.mp3'', size_bytes = 1001\<rparr>]\<rparr>
   \<and> requests (snd (change_handler
     \<lparr>ACCEPTED_FILE_TYPES = [''MP3'', ''WAV''],
      MAX_AUDIO_FILE_SIZE = \<lparr>Value = 1000, Name = ''1 kB''\<rparr>\<rparr>
     \<lparr>val = fakepath ''song.mp3'', files = [\<lparr>name = ''song.mp3'', size_bytes = 1001\<rparr>]\<rparr>
     \<lparr>outcomeText = \<lparr>text_content = [], classes = []\<rparr>, effects = []\<rparr>))
     = []"
  using valid_file_single_post
     [of "\<lparr>ACCEPTED_FILE_TYPES = [''MP3'', ''WAV''],
           MAX_AUDIO_FILE_SIZE = \<lparr>Value = 1000, Name = ''1 kB''\<rparr>\<rparr>"
         "\<lparr>val = fakepath ''song.mp3'', files = [\<lparr>name = ''song.mp3'', size_bytes = 1000\<rparr>]\<rparr>"
         "\<lparr>outcomeText = \<lparr>text_content = [], classes = []\<rparr>, effects = []\<rparr>"]
    valid_file_single_post
     [of "\<lparr>ACCEPTED_FILE_TYPES = [''MP3'', ''WAV''],
           MAX_AUDIO_FILE_SIZE = \<lparr>Value = 1000, Name = ''1 kB''\<rparr>\<rparr>"
         "\<lparr>val = fakepath ''song.mp3'', files = [\<lparr>name = ''song.mp3'', size_bytes = 1001\<rparr>]\<rparr>"
         "\<lparr>outcomeText = \<lparr>text_content = [], classes = []\<rparr>, effects = []\<rparr>"]
  by (simp add: passes_checks_def substring_after_final_dot_def toUpperCase_def
        toUpperCase_char_def requests_def fakepath_def)


subsection \<open>The validation checks\<close>

text \<open>
  Claim C2. When no file is selected (the value of the input is the empty string), the
  handler returns with the outcome element in the error state, showing exactly
  \<^verbatim>\<open>You must select a file.\<close>, and sends no request. It returns before the extension and
  size checks: the result is the same whatever the file list and the configuration are.
\<close>

theorem no_file_selected:
  assumes "val inp = []"
  shows "fst (change_handler cfg inp w) = Returned
    \<and> text_content (outcomeText (snd (change_handler cfg inp w))) = ''You must select a file.''
    \<and> has_class ''error-text'' (snd (change_handler cfg inp w))
    \<and> \<not> has_class ''success-text'' (snd (change_handler cfg inp w))
    \<and> requests (snd (change_handler cfg inp w)) = requests w
    \<and> change_handler cfg' (inp\<lparr>files := fs'\<rparr>) w = change_handler cfg inp w"
proof -
  have other: "val (inp\<lparr>files := fs'\<rparr>) = []"
    using assms by simp
  show ?thesis
    unfolding change_no_file [OF assms] change_no_file [OF other]
    by (simp add: has_class_def requests_def requests_of_append)
qed

theorem no_file_selected_witness:
  "val \<lparr>val = [], files = []\<rparr> = []
   \<and> change_handler
       \<lparr>ACCEPTED_FILE_TYPES = [''MP3'', ''WAV''],
        MAX_AUDIO_FILE_SIZE = \<lparr>Value = 1000, Name = ''1 kB''\<rparr>\<rparr>
       \<lparr>val = [], files = []\<rparr>
       \<lparr>outcomeText = \<lparr>text_content = ''old'', classes = [''success-text'']\<rparr>, effects = []\<rparr>
     = (Returned,
        \<lparr>outcomeText = \<lparr>text_content = ''You must select a file.'', classes = [''error-text'']\<rparr>,
         effects = [Text [], RemoveClass ''error-text'', RemoveClass ''success-text'',
                    Text ''You must select a file.'', AddClass ''error-text'']\<rparr>)"
  using no_file_selected
     [of "\<lparr>val = [], files = []\<rparr>"
         "\<lparr>ACCEPTED_FILE_TYPES = [''MP3'', ''WAV''],
           MAX_AUDIO_FILE_SIZE = \<lparr>Value = 1000, Name = ''1 kB''\<rparr>\<rparr>"
         "\<lparr>outcomeText = \<lparr>text_content = ''old'', classes = [''success-text'']\<rparr>, effects = []\<rparr>"]
  by (simp add: change_handler_def dom_defs)

text \<open>
  Claim C3, as stated, fails in its second sentence: the handler upper-cases the extension
  of the file name but compares it with the accepted types as they are written. With the
  accepted types \<^verbatim>\<open>["mp3"]\<close> the file \<^verbatim>\<open>song.mp3\<close>, whose extension is listed letter for
  letter, is rejected.
\<close>

theorem listed_extension_rejected:
  "substring_after_final_dot ''song.mp3'' \<in> set [''mp3'']
   \<and> change_handler
       \<lparr>ACCEPTED_FILE_TYPES = [''mp3''],
        MAX_AUDIO_FILE_SIZE = \<lparr>Value = 1000, Name = ''1 kB''\<rparr>\<rparr>
       \<lparr>val = fakepath ''song.mp3'', files = [\<lparr>name = ''song.mp3'', size_bytes = 10\<rparr>]\<rparr>
       \<lparr>outcomeText = \<lparr>text_content = [], classes = []\<rparr>, effects = []\<rparr>
     = (Returned,
        \<lparr>outcomeText =
           \<lparr>text_content = ''File uploaded not of accepted file type. Accepted: mp3.'',
            classes = [''error-text'']\<rparr>,
         effects = [Text [], RemoveClass ''error-text'', RemoveClass ''success-text'',
                    Text ''File uploaded not of accepted file type. Accepted: mp3.'',
                    AddClass ''error-text'']\<rparr>)"
  by (simp add: substring_after_final_dot_def change_handler_def dom_defs fakepath_def
        extension_def split_str_def pop_def toUpperCase_def toUpperCase_char_def
        includes_str_def type_message_def)

text \<open>
  Claim C3, amended. For a selected file whose upper-cased extension (the substring of the
  name after the final dot) is not a member of the accepted types, the outcome element ends
  in the error state with the message that lists the accepted types, and no request is
  sent; this covers every file whose extension equals no accepted type case-insensitively.
  A file whose extension is, in any casing, an accepted type that is written in upper case
  passes the check (and is uploaded when its size is within the limit).
\<close>

theorem unlisted_extension_rejected:
  assumes "val inp \<noteq> []" and "files inp = f # fs"
  shows "(toUpperCase (substring_after_final_dot (name f)) \<notin> set (ACCEPTED_FILE_TYPES cfg) \<longrightarrow>
           fst (change_handler cfg inp w) = Returned
         \<and> text_content (outcomeText (snd (change_handler cfg inp w))) =
             ''File uploaded not of accepted file type. Accepted: ''
               @ array_toString (ACCEPTED_FILE_TYPES cfg) @ ''.''
         \<and> has_class ''error-text'' (snd (change_handler cfg inp w))
         \<and> \<not> has_class ''success-text'' (snd (change_handler cfg inp w))
         \<and> requests (snd (change_handler cfg inp w)) = requests w)
    \<and> ((\<forall>t \<in> set (ACCEPTED_FILE_TYPES cfg).
            \<not> same_ignoring_case (substring_after_final_dot (name f)) t) \<longrightarrow>
         toUpperCase (substring_after_final_dot (name f)) \<notin> set (ACCEPTED_FILE_TYPES cfg))
    \<and> (t \<in> set (ACCEPTED_FILE_TYPES cfg) \<and> toUpperCase t = t
          \<and> same_ignoring_case (substring_after_final_dot (name f)) t \<longrightarrow>
         text_content (outcomeText (snd (change_handler cfg inp w))) \<noteq>
             ''File uploaded not of accepted file type. Accepted: ''
               @ array_toString (ACCEPTED_FILE_TYPES cfg) @ ''.''
         \<and> (size_bytes f \<le> Value (MAX_AUDIO_FILE_SIZE cfg) \<longrightarrow>
              requests (snd (change_handler cfg inp w)) = requests w @ [upload_request f]))"
proof -
  let ?e = "toUpperCase (substring_after_final_dot (name f))"
  have ext: "extension (files inp) = Inr ?e"
    using assms(2) by (simp add: extension_spec)
  have rejected: "fst (change_handler cfg inp w) = Returned
         \<and> text_content (outcomeText (snd (change_handler cfg inp w))) =
             ''File uploaded not of accepted file type. Accepted: ''
               @ array_toString (ACCEPTED_FILE_TYPES cfg) @ ''.''
         \<and> has_class ''error-text'' (snd (change_handler cfg inp w))
         \<and> \<not> has_class ''success-text'' (snd (change_handler cfg inp w))
         \<and> requests (snd (change_handler cfg inp w)) = requests w"
    if bad: "?e \<notin> set (ACCEPTED_FILE_TYPES cfg)"
    by (simp add: change_bad_type [OF assms ext bad] type_message_def has_class_def
          requests_def requests_of_append)
  have folded: "?e \<notin> set (ACCEPTED_FILE_TYPES cfg)"
    if none: "\<forall>t \<in> set (ACCEPTED_FILE_TYPES cfg).
            \<not> same_ignoring_case (substring_after_final_dot (name f)) t"
  proof
    assume "?e \<in> set (ACCEPTED_FILE_TYPES cfg)"
    with none have "\<not> same_ignoring_case (substring_after_final_dot (name f)) ?e"
      by blast
    then show False
      by (simp add: same_ignoring_case_def toUpperCase_idem)
  qed
  have passes: "text_content (outcomeText (snd (change_handler cfg inp w))) \<noteq>
             ''File uploaded not of accepted file type. Accepted: ''
               @ array_toString (ACCEPTED_FILE_TYPES cfg) @ ''.''
         \<and> (size_bytes f \<le> Value (MAX_AUDIO_FILE_SIZE cfg) \<longrightarrow>
              requests (snd (change_handler cfg inp w)) = requests w @ [upload_request f])"
    if listed: "t \<in> set (ACCEPTED_FILE_TYPES cfg)" and upper: "toUpperCase t = t"
      and same: "same_ignoring_case (substring_after_final_dot (name f)) t"
  proof -
    from same upper have "?e = t"
      by (simp add: same_ignoring_case_def)
    with listed have ok: "?e \<in> set (ACCEPTED_FILE_TYPES cfg)"
      by simp
    have "text_content (outcomeText (snd (change_handler cfg inp w))) \<noteq> type_message cfg"
      by (rule change_accepted_text [OF assms ext ok])
    moreover have "requests (snd (change_handler cfg inp w)) = requests w @ [upload_request f]"
      if le: "size_bytes f \<le> Value (MAX_AUDIO_FILE_SIZE cfg)"
      by (simp add: change_upload [OF assms ext ok le] requests_def requests_of_append)
    ultimately show ?thesis
      by (simp add: type_message_def)
  qed
  from rejected folded passes show ?thesis
    by blast
qed

theorem unlisted_extension_rejected_witness:
  "val \<lparr>val = fakepath ''notes.txt'', files = [\<lparr>name = ''notes.txt'', size_bytes = 10\<rparr>]\<rparr> \<noteq> []
   \<and> \<not> same_ignoring_case (substring_after_final_dot ''notes.txt'') ''MP3''
   \<and> \<not> same_ignoring_case (substring_after_final_dot ''notes.txt'') ''WAV''
   \<and> toUpperCase (substring_after_final_dot ''notes.txt'') \<notin> set [''MP3'', ''WAV'']
   \<and> text_content (outcomeText (snd (change_handler
       \<lparr>ACCEPTED_FILE_TYPES = [''MP3'', ''WAV''],
        MAX_AUDIO_FILE_SIZE = \<lparr>Value = 1000, Name = ''1 kB''\<rparr>\<rparr>
       \<lparr>val = fakepath ''notes.txt'', files = [\<lparr>name = ''notes.txt'', size_bytes = 10\<rparr>]\<rparr>
       \<lparr>outcomeText = \<lparr>text_content = [], classes = []\<rparr>, effects = []\<rparr>)))
     = ''File uploaded not of accepted file type. Accepted: MP3,WAV.''
   \<and> requests (snd (change_handler
       \<lparr>ACCEPTED_FILE_TYPES = [''MP3'', ''WAV''],
        MAX_AUDIO_FILE_SIZE = \<lparr>Value = 1000, Name = ''1 kB''\<rparr>\<rparr>
       \<lparr>val = fakepath ''notes.txt'', files = [\<lparr>name = ''notes.txt'', size_bytes = 10\<rparr>]\<rparr>
       \<lparr>outcomeText = \<lparr>text_content = [], classes = []\<rparr>, effects = []\<rparr>))
     = []
   \<and> ''MP3'' \<in> set [''MP3'', ''WAV'']
   \<and> toUpperCase ''MP3'' = ''MP3''
   \<and> same_ignoring_case (substring_after_final_dot ''Song.Mp3'') ''MP3''
   \<and> requests (snd (change_handler
       \<lparr>ACCEPTED_FILE_TYPES = [''MP3'', ''WAV''],
        MAX_AUDIO_FILE_SIZE = \<lparr>Value = 1000, Name = ''1 kB''\<rparr>\<rparr>
       \<lparr>val = fakepath ''Song.Mp3'', files = [\<lparr>name = ''Song.Mp3'', size_bytes = 10\<rparr>]\<rparr>
       \<lparr>outcomeText = \<lparr>text_content = [], classes = []\<rparr>, effects = []\<rparr>))
     = [upload_request \<lparr>name = ''Song.Mp3'', size_bytes = 10\<rparr>]"
  using unlisted_extension_rejected
     [of "\<lparr>val = fakepath ''notes.txt'', files = [\<lparr>name = ''notes.txt'', size_bytes = 10\<rparr>]\<rparr>"
         "\<lparr>name = ''notes.txt'', size_bytes = 10\<rparr>" "[]"
         "\<lparr>ACCEPTED_FILE_TYPES = [''MP3'', ''WAV''],
           MAX_AUDIO_FILE_SIZE = \<lparr>Value = 1000, Name = ''1 kB''\<rparr>\<rparr>"
         "\<lparr>outcomeText = \<lparr>text_content = [], classes = []\<rparr>, effects = []\<rparr>"
         "''MP3''"]
    unlisted_extension_rejected
     [of "\<lparr>val = fakepath ''Song.Mp3'', files = [\<lparr>name = ''Song.Mp3'', size_bytes = 10\<rparr>]\<rparr>"
         "\<lparr>name = ''Song.Mp3'', size_bytes = 10\<rparr>" "[]"
         "\<lparr>ACCEPTED_FILE_TYPES = [''MP3'', ''WAV''],
           MAX_AUDIO_FILE_SIZE = \<lparr>Value = 1000, Name = ''1 kB''\<rparr>\<rparr>"
         "\<lparr>outcomeText = \<lparr>text_content = [], classes = []\<rparr>, effects = []\<rparr>"
         "''MP3''"]
  by (simp add: fakepath_def substring_after_final_dot_def toUpperCase_def toUpperCase_char_def
        same_ignoring_case_def requests_def)

text \<open>
  Claim C4. For a selected file with an accepted extension whose size is greater than
  \<^verbatim>\<open>MAX_AUDIO_FILE_SIZE["Value"]\<close>, the outcome element ends in the error state with the
  message that names \<^verbatim>\<open>MAX_AUDIO_FILE_SIZE["Name"]\<close>, and no request is sent. A file whose
  size equals the limit passes the size check: it is uploaded.
\<close>

theorem oversized_file_rejected:
  assumes "val inp \<noteq> []" and "files inp = f # fs"
    and "toUpperCase (substring_after_final_dot (name f)) \<in> set (ACCEPTED_FILE_TYPES cfg)"
  shows "(size_bytes f > Value (MAX_AUDIO_FILE_SIZE cfg) \<longrightarrow>
           fst (change_handler cfg inp w) = Returned
         \<and> text_content (outcomeText (snd (change_handler cfg inp w))) =
             ''File is too big; please select a file that is smaller than ''
               @ Name (MAX_AUDIO_FILE_SIZE cfg) @ ''.''
         \<and> has_class ''error-text'' (snd (change_handler cfg inp w))
         \<and> \<not> has_class ''success-text'' (snd (change_handler cfg inp w))
         \<and> requests (snd (change_handler cfg inp w)) = requests w)
    \<and> (size_bytes f = Value (MAX_AUDIO_FILE_SIZE cfg) \<longrightarrow>
           fst (change_handler cfg inp w) = Returned
         \<and> text_content (outcomeText (snd (change_handler cfg inp w))) = []
         \<and> \<not> has_class ''error-text'' (snd (change_handler cfg inp w))
         \<and> requests (snd (change_handler cfg inp w)) = requests w @ [upload_request f])"
proof -
  have ext: "extension (files inp) = Inr (toUpperCase (substring_after_final_dot (name f)))"
    using assms(2) by (simp add: extension_spec)
  show ?thesis
  proof (intro conjI impI)
    assume big: "size_bytes f > Value (MAX_AUDIO_FILE_SIZE cfg)"
    note r = change_too_big [OF assms(1) assms(2) ext assms(3) big, of w]
    show "fst (change_handler cfg inp w) = Returned"
      by (simp add: r)
    show "text_content (outcomeText (snd (change_handler cfg inp w))) =
             ''File is too big; please select a file that is smaller than ''
               @ Name (MAX_AUDIO_FILE_SIZE cfg) @ ''.''"
      by (simp add: r size_message_def)
    show "has_class ''error-text'' (snd (change_handler cfg inp w))"
      by (simp add: r has_class_def)
    show "\<not> has_class ''success-text'' (snd (change_handler cfg inp w))"
      by (simp add: r has_class_def)
    show "requests (snd (change_handler cfg inp w)) = requests w"
      by (simp add: r requests_def requests_of_append)
  next
    assume "size_bytes f = Value (MAX_AUDIO_FILE_SIZE cfg)"
    then have le: "size_bytes f \<le> Value (MAX_AUDIO_FILE_SIZE cfg)"
      by simp
    note r = change_upload [OF assms(1) assms(2) ext assms(3) le, of w]
    show "fst (change_handler cfg inp w) = Returned"
      by (simp add: r)
    show "text_content (outcomeText (snd (change_handler cfg inp w))) = []"
      by (simp add: r)
    show "\<not> has_class ''error-text'' (snd (change_handler cfg inp w))"
      by (simp add: r has_class_def)
    show "requests (snd (change_handler cfg inp w)) = requests w @ [upload_request f]"
      by (simp add: r requests_def requests_of_append)
  qed
qed

theorem oversized_file_rejected_witness:
  "val \<lparr>val = fakepath ''song.mp3'', files = [\<lparr>name = ''song.mp3'', size_bytes = 1001\<rparr>]\<rparr> \<noteq> []
   \<and> toUpperCase (substring_after_final_dot (name \<lparr>name = ''song.mp3'', size_bytes = 1001\<rparr>))
        \<in> set [''MP3'', ''WAV'']
   \<and> size_bytes \<lparr>name = ''song.mp3'', size_bytes = 1001\<rparr> > (1000::nat)
   \<and> text_content (outcomeText (snd (change_handler
       \<lparr>ACCEPTED_FILE_TYPES = [''MP3'', ''WAV''],
        MAX_AUDIO_FILE_SIZE = \<lparr>Value = 1000, Name = ''1 kB''\<rparr>\<rparr>
       \<lparr>val = fakepath ''song.mp3'', files = [\<lparr>name = ''song.mp3'', size_bytes = 1001\<rparr>]\<rparr>
       \<lparr>outcomeText = \<lparr>text_content = [], classes = []\<rparr>, effects = []\<rparr>)))
     = ''File is too big; please select a file that is smaller than 1 kB.''
   \<and> requests (snd (change_handler
       \<lparr>ACCEPTED_FILE_TYPES = [''MP3'', ''WAV''],
        MAX_AUDIO_FILE_SIZE = \<lparr>Value = 1000, Name = ''1 kB''\<rparr>\<rparr>
       \<lparr>val = fakepath ''song.mp3'', files = [\<lparr>name = ''song.mp3'', size_bytes = 1001\<rparr>]\<rparr>
       \<lparr>outcomeText = \<lparr>text_content = [], classes = []\<rparr>, effects = []\<rparr>))
     = []
   \<and> size_bytes \<lparr>name = ''song.mp3'', size_bytes = 1000\<rparr> = (1000::nat)
   \<and> requests (snd (change_handler
       \<lparr>ACCEPTED_FILE_TYPES = [''MP3'', ''WAV''],
        MAX_AUDIO_FILE_SIZE = \<lparr>Value = 1000, Name = ''1 kB''\<rparr>\<rparr>
       \<lparr>val = fakepath ''song.mp3'', files = [\<lparr>name = ''song.mp3'', size_bytes = 1000\<rparr>]\<rparr>
       \<lparr>outcomeText = \<lparr>text_content = [], classes = []\<rparr>, effects = []\<rparr>))
     = [upload_request \<lparr>name = ''song.mp3'', size_bytes = 1000\<rparr>]"
  using oversized_file_rejected
     [of "\<lparr>val = fakepath ''song.mp3'', files = [\<lparr>name = ''song.mp3'', size_bytes = 1001\<rparr>]\<rparr>"
         "\<lparr>name = ''song.mp3'', size_bytes = 1001\<rparr>" "[]"
         "\<lparr>ACCEPTED_FILE_TYPES = [''MP3'', ''WAV''],
           MAX_AUDIO_FILE_SIZE = \<lparr>Value = 1000, Name = ''1 kB''\<rparr>\<rparr>"
         "\<lparr>outcomeText = \<lparr>text_content = [], classes = []\<rparr>, effects = []\<rparr>"]
    oversized_file_rejected
     [of "\<lparr>val = fakepath ''song.mp3'', files = [\<lparr>name = ''song.mp3'', size_bytes = 1000\<rparr>]\<rparr>"
         "\<lparr>name = ''song.mp3'', size_bytes = 1000\<rparr>" "[]"
         "\<lparr>ACCEPTED_FILE_TYPES = [''MP3'', ''WAV''],
           MAX_AUDIO_FILE_SIZE = \<lparr>Value = 1000, Name = ''1 kB''\<rparr>\<rparr>"
         "\<lparr>outcomeText = \<lparr>text_content = [], classes = []\<rparr>, effects = []\<rparr>"]
  by (simp add: fakepath_def substring_after_final_dot_def toUpperCase_def toUpperCase_char_def
        requests_def)

text \<open>
  Claim C9. For a selected file whose name has no dot, \<^verbatim>\<open>split(".").pop()\<close> is the whole
  name, so the check compares the upper-cased name with the accepted types: the file is
  rejected for its type exactly when its upper-cased name is not a member, and it is
  uploaded exactly when the name is a member and the size is within the limit.
\<close>

theorem name_without_dot:
  assumes "val inp \<noteq> []" and "files inp = f # fs" and "CHR ''.'' \<notin> set (name f)"
  shows "extension (files inp) = Inr (toUpperCase (name f))
    \<and> (text_content (outcomeText (snd (change_handler cfg inp w))) = type_message cfg)
        = (toUpperCase (name f) \<notin> set (ACCEPTED_FILE_TYPES cfg))
    \<and> (requests (snd (change_handler cfg inp w)) = requests w @ [upload_request f])
        = (toUpperCase (name f) \<in> set (ACCEPTED_FILE_TYPES cfg)
           \<and> size_bytes f \<le> Value (MAX_AUDIO_FILE_SIZE cfg))"
proof -
  have ext: "extension (files inp) = Inr (toUpperCase (name f))"
    using assms(2,3) by (simp add: extension_Cons)
  have verdict: "(text_content (outcomeText (snd (change_handler cfg inp w))) = type_message cfg)
        = (toUpperCase (name f) \<notin> set (ACCEPTED_FILE_TYPES cfg))"
  proof (cases "toUpperCase (name f) \<in> set (ACCEPTED_FILE_TYPES cfg)")
    case True
    then show ?thesis
      using change_accepted_text [OF assms(1,2) ext True, of w] by simp
  next
    case False
    then show ?thesis
      by (simp add: change_bad_type [OF assms(1,2) ext False])
  qed
  have sent: "(requests (snd (change_handler cfg inp w)) = requests w @ [upload_request f])
        = (toUpperCase (name f) \<in> set (ACCEPTED_FILE_TYPES cfg)
           \<and> size_bytes f \<le> Value (MAX_AUDIO_FILE_SIZE cfg))"
  proof (cases "toUpperCase (name f) \<in> set (ACCEPTED_FILE_TYPES cfg)")
    case False
    then show ?thesis
      by (simp add: change_bad_type [OF assms(1,2) ext False] requests_def requests_of_append)
  next
    case True
    show ?thesis
    proof (cases "size_bytes f > Value (MAX_AUDIO_FILE_SIZE cfg)")
      case big: True
      then show ?thesis
        by (simp add: change_too_big [OF assms(1,2) ext True big] requests_def
              requests_of_append)
    next
      case False
      then have le: "size_bytes f \<le> Value (MAX_AUDIO_FILE_SIZE cfg)"
        by simp
      with True show ?thesis
        by (simp add: change_upload [OF assms(1,2) ext True le] requests_def
              requests_of_append)
    qed
  qed
  from ext verdict sent show ?thesis
    by blast
qed

theorem name_without_dot_witness:
  "val \<lparr>val = fakepath ''wav'', files = [\<lparr>name = ''wav'', size_bytes = 7\<rparr>]\<rparr> \<noteq> []
   \<and> CHR ''.'' \<notin> set (name \<lparr>name = ''wav'', size_bytes = 7\<rparr>)
   \<and> extension (files \<lparr>val = fakepath ''wav'', files = [\<lparr>name = ''wav'', size_bytes = 7\<rparr>]\<rparr>)
       = Inr ''WAV''
   \<and> requests (snd (change_handler
       \<lparr>ACCEPTED_FILE_TYPES = [''MP3'', ''WAV''],
        MAX_AUDIO_FILE_SIZE = \<lparr>Value = 1000, Name = ''1 kB''\<rparr>\<rparr>
       \<lparr>val = fakepath ''wav'', files = [\<lparr>name = ''wav'', size_bytes = 7\<rparr>]\<rparr>
       \<lparr>outcomeText = \<lparr>text_content = [], classes = []\<rparr>, effects = []\<rparr>))
     = [upload_request \<lparr>name = ''wav'', size_bytes = 7\<rparr>]"
  using name_without_dot
     [of "\<lparr>val = fakepath ''wav'', files = [\<lparr>name = ''wav'', size_bytes = 7\<rparr>]\<rparr>"
         "\<lparr>name = ''wav'', size_bytes = 7\<rparr>" "[]"
         "\<lparr>ACCEPTED_FILE_TYPES = [''MP3'', ''WAV''],
           MAX_AUDIO_FILE_SIZE = \<lparr>Value = 1000, Name = ''1 kB''\<rparr>\<rparr>"
         "\<lparr>outcomeText = \<lparr>text_content = [], classes = []\<rparr>, effects = []\<rparr>"]
  by (simp add: fakepath_def toUpperCase_def toUpperCase_char_def requests_def)


subsection \<open>The reply callback\<close>

lemma text_value_classes: "classes (outcomeText (text_value v w)) = classes (outcomeText w)"
  by (simp add: text_value_def dom_defs split: option.splits js_value.splits)

lemma text_value_navigations: "navigations (text_value v w) = navigations w"
  by (simp add: text_value_def dom_defs navigations_def navigations_of_append
        split: option.splits js_value.splits)

lemma text_value_assignments: "assignments (text_value v w) = assignments w"
  by (simp add: text_value_def dom_defs assignments_def assignments_of_append
        split: option.splits js_value.splits)

lemma text_value_Str:
  "text_value (Some (Str m)) w =
     \<lparr>outcomeText = (outcomeText w)\<lparr>text_content := m\<rparr>, effects = effects w @ [Text m]\<rparr>"
  by (simp add: text_value_def dom_defs)

lemma text_value_replay:
  "length (effects w) \<le> length (effects (text_value v w))"
  "outcomeText (text_value v w)
     = replay (drop (length (effects w)) (effects (text_value v w))) (outcomeText w)"
  by (simp_all add: text_value_def dom_defs replay_def split: option.splits js_value.splits)

lemma location_href_element: "outcomeText (snd (location_href parses u w)) = outcomeText w"
  by (simp add: location_href_def perform_def)

lemma location_href_effects:
  "effects (snd (location_href parses u w))
     = effects w @ [if parses u then Href u else Href_throws u]"
  by (simp add: location_href_def perform_def)

lemma done_error:
  "props ''outcome'' = Some (Str ''error'') \<Longrightarrow>
   done_callback parses (Data props) w =
     (Returned, addClass ''error-text'' (text_value (props ''msg'') w))"
  by (simp add: done_callback_def)

lemma done_success:
  "props ''outcome'' \<noteq> Some (Str ''error'') \<Longrightarrow>
   done_callback parses (Data props) w =
     location_href parses (href_string (props ''url''))
       (addClass ''success-text'' (text_value (props ''msg'') w))"
  by (simp add: done_callback_def)

lemma done_error_classes:
  assumes "props ''outcome'' = Some (Str ''error'')"
  shows "has_class ''error-text'' (snd (done_callback parses (Data props) w))"
    and "has_class ''success-text'' (snd (done_callback parses (Data props) w))
           = has_class ''success-text'' w"
  by (simp_all add: done_error [of props parses w, OF assms] has_class_def dom_defs
        text_value_classes)

lemma done_success_classes:
  assumes "props ''outcome'' \<noteq> Some (Str ''error'')"
  shows "has_class ''success-text'' (snd (done_callback parses (Data props) w))"
    and "has_class ''error-text'' (snd (done_callback parses (Data props) w))
           = has_class ''error-text'' w"
  by (simp_all add: done_success [of props parses w, OF assms] has_class_def
        location_href_element dom_defs text_value_classes)

lemma pass_then_reply:
  assumes "passes_checks cfg inp" and "n \<le> length (requests w)"
  shows "run cfg parses [Change inp, Settle (Resolved d)] (w, n)
           = Some (snd (done_callback parses d (snd (change_handler cfg inp w))), Suc n)"
    and "\<not> has_class ''error-text'' (snd (change_handler cfg inp w))"
    and "\<not> has_class ''success-text'' (snd (change_handler cfg inp w))"
proof -
  have "length (requests (snd (change_handler cfg inp w))) = Suc (length (requests w))"
    using assms(1)
    by (rule change_passes [of cfg inp w]) (simp add: requests_def requests_of_append)
  with assms(2) have "n < length (requests (snd (change_handler cfg inp w)))"
    by simp
  then show "run cfg parses [Change inp, Settle (Resolved d)] (w, n)
           = Some (snd (done_callback parses d (snd (change_handler cfg inp w))), Suc n)"
    by (simp add: settle_def split: prod.splits)
  show "\<not> has_class ''error-text'' (snd (change_handler cfg inp w))"
    using assms(1) by (rule change_passes [of cfg inp w]) (simp add: has_class_def)
  show "\<not> has_class ''success-text'' (snd (change_handler cfg inp w))"
    using assms(1) by (rule change_passes [of cfg inp w]) (simp add: has_class_def)
qed

text \<open>
  Claim C5, as stated, fails: the callback adds the error class and removes nothing, so on
  an element that carries the success class it does not end in the error state. Two valid
  files are selected one after the other and both requests are sent; the first reply is a
  success (its \<^verbatim>\<open>url\<close> is a fragment, so the page stays), the second an error. The
  element ends with both classes.
\<close>

theorem error_reply_on_success_display:
  "run \<lparr>ACCEPTED_FILE_TYPES = [''MP3'', ''WAV''],
        MAX_AUDIO_FILE_SIZE = \<lparr>Value = 1000, Name = ''1 kB''\<rparr>\<rparr>
     refuses_missing_host
     [Change \<lparr>val = fakepath ''a.mp3'', files = [\<lparr>name = ''a.mp3'', size_bytes = 10\<rparr>]\<rparr>,
      Change \<lparr>val = fakepath ''b.wav'', files = [\<lparr>name = ''b.wav'', size_bytes = 20\<rparr>]\<rparr>,
      Settle (Resolved (Data (map_of
        [(''outcome'', Str ''ok''), (''msg'', Str ''done''), (''url'', Str ''#top'')]))),
      Settle (Resolved (Data (map_of
        [(''outcome'', Str ''error''), (''msg'', Str ''bad format'')])))]
     (\<lparr>outcomeText = \<lparr>text_content = [], classes = []\<rparr>, effects = []\<rparr>, 0)
   = Some
      (\<lparr>outcomeText =
         \<lparr>text_content = ''bad format'', classes = [''success-text'', ''error-text'']\<rparr>,
        effects =
          [Text [], RemoveClass ''error-text'', RemoveClass ''success-text'', Text [],
           Ajax (upload_request \<lparr>name = ''a.mp3'', size_bytes = 10\<rparr>),
           Text [], RemoveClass ''error-text'', RemoveClass ''success-text'', Text [],
           Ajax (upload_request \<lparr>name = ''b.wav'', size_bytes = 20\<rparr>),
           Text ''done'', AddClass ''success-text'', Href ''#top'',
           Text ''bad format'', AddClass ''error-text'']\<rparr>, 2)
   \<and> has_class ''success-text''
        \<lparr>outcomeText =
           \<lparr>text_content = ''bad format'', classes = [''success-text'', ''error-text'']\<rparr>,
         effects = []\<rparr>"
  by (simp add: change_handler_def dom_defs fakepath_def extension_def split_str_def pop_def
        toUpperCase_def toUpperCase_char_def includes_str_def requests_def
        settle_def done_callback_def location_href_def text_value_def href_string_def
        has_class_def refuses_missing_host_def)

text \<open>
  Claim C5, amended. For a reply whose parsed value has the property \<^verbatim>\<open>outcome\<close> equal to
  the string \<^verbatim>\<open>error\<close>, the callback returns, writes \<^verbatim>\<open>msg\<close> as the text (exactly \<^verbatim>\<open>msg\<close>
  when it is a string) and then adds the error class; it assigns nothing to
  \<^verbatim>\<open>window.location.href\<close>. It removes no class: the success class is on the element
  afterwards exactly when it was there before. So the element is in the error state (error
  class, no success class) whenever the callback starts without the success class, as it
  does when the reply follows the change handler that sent its request.
\<close>

theorem error_reply_shown:
  assumes "props ''outcome'' = Some (Str ''error'')"
  shows "fst (done_callback parses (Data props) w) = Returned
    \<and> has_class ''error-text'' (snd (done_callback parses (Data props) w))
    \<and> has_class ''success-text'' (snd (done_callback parses (Data props) w))
        = has_class ''success-text'' w
    \<and> navigations (snd (done_callback parses (Data props) w)) = navigations w
    \<and> assignments (snd (done_callback parses (Data props) w)) = assignments w
    \<and> (props ''msg'' = Some (Str m) \<longrightarrow>
          text_content (outcomeText (snd (done_callback parses (Data props) w))) = m
        \<and> effects (snd (done_callback parses (Data props) w))
            = effects w @ [Text m, AddClass ''error-text''])
    \<and> (passes_checks cfg inp \<and> n \<le> length (requests w) \<longrightarrow>
          run cfg parses [Change inp, Settle (Resolved (Data props))] (w, n)
            = Some (snd (done_callback parses (Data props) (snd (change_handler cfg inp w))),
                    Suc n)
        \<and> has_class ''error-text''
            (snd (done_callback parses (Data props) (snd (change_handler cfg inp w))))
        \<and> \<not> has_class ''success-text''
            (snd (done_callback parses (Data props) (snd (change_handler cfg inp w)))))"
proof -
  note r = done_error [of props parses w, OF assms]
  have returned: "fst (done_callback parses (Data props) w) = Returned"
    by (simp add: r)
  have nav: "navigations (snd (done_callback parses (Data props) w)) = navigations w"
    using text_value_navigations [of "props ''msg''" w]
    by (simp add: r navigations_def dom_defs navigations_of_append)
  have asg: "assignments (snd (done_callback parses (Data props) w)) = assignments w"
    using text_value_assignments [of "props ''msg''" w]
    by (simp add: r assignments_def dom_defs assignments_of_append)
  have shown: "text_content (outcomeText (snd (done_callback parses (Data props) w))) = m
        \<and> effects (snd (done_callback parses (Data props) w))
            = effects w @ [Text m, AddClass ''error-text'']"
    if "props ''msg'' = Some (Str m)"
    using that by (simp add: r text_value_Str dom_defs)
  have pass: "run cfg parses [Change inp, Settle (Resolved (Data props))] (w, n)
            = Some (snd (done_callback parses (Data props) (snd (change_handler cfg inp w))),
                    Suc n)
        \<and> has_class ''error-text''
            (snd (done_callback parses (Data props) (snd (change_handler cfg inp w))))
        \<and> \<not> has_class ''success-text''
            (snd (done_callback parses (Data props) (snd (change_handler cfg inp w))))"
    if "passes_checks cfg inp \<and> n \<le> length (requests w)"
  proof -
    from that have ok: "passes_checks cfg inp" and n: "n \<le> length (requests w)"
      by simp_all
    show ?thesis
      using pass_then_reply(1) [OF ok n, of parses "Data props"]
        pass_then_reply(3) [OF ok n]
        done_error_classes [of props parses "snd (change_handler cfg inp w)", OF assms]
      by simp
  qed
  from returned nav asg shown pass
    done_error_classes [of props parses w, OF assms]
  show ?thesis
    by blast
qed

theorem error_reply_shown_witness:
  "map_of [(''outcome'', Str ''error''), (''msg'', Str ''bad format'')] ''outcome''
     = Some (Str ''error'')
   \<and> map_of [(''outcome'', Str ''error''), (''msg'', Str ''bad format'')] ''msg''
     = Some (Str ''bad format'')
   \<and> done_callback refuses_missing_host
       (Data (map_of [(''outcome'', Str ''error''), (''msg'', Str ''bad format'')]))
       \<lparr>outcomeText = \<lparr>text_content = [], classes = []\<rparr>, effects = []\<rparr>
     = (Returned,
        \<lparr>outcomeText = \<lparr>text_content = ''bad format'', classes = [''error-text'']\<rparr>,
         effects = [Text ''bad format'', AddClass ''error-text'']\<rparr>)
   \<and> navigations (snd (done_callback refuses_missing_host
       (Data (map_of [(''outcome'', Str ''error''), (''msg'', Str ''bad format'')]))
       \<lparr>outcomeText = \<lparr>text_content = [], classes = []\<rparr>, effects = []\<rparr>)) = []
   \<and> passes_checks
       \<lparr>ACCEPTED_FILE_TYPES = [''MP3'', ''WAV''],
        MAX_AUDIO_FILE_SIZE = \<lparr>Value = 1000, Name = ''1 kB''\<rparr>\<rparr>
       \<lparr>val = fakepath ''a.mp3'', files = [\<lparr>name = ''a.mp3'', size_bytes = 10\<rparr>]\<rparr>
   \<and> (0::nat) \<le> length (requests
        \<lparr>outcomeText = \<lparr>text_content = [], classes = []\<rparr>, effects = []\<rparr>)
   \<and> run \<lparr>ACCEPTED_FILE_TYPES = [''MP3'', ''WAV''],
          MAX_AUDIO_FILE_SIZE = \<lparr>Value = 1000, Name = ''1 kB''\<rparr>\<rparr>
       refuses_missing_host
       [Change \<lparr>val = fakepath ''a.mp3'', files = [\<lparr>name = ''a.mp3'', size_bytes = 10\<rparr>]\<rparr>,
        Settle (Resolved (Data (map_of
          [(''outcome'', Str ''error''), (''msg'', Str ''bad format'')])))]
       (\<lparr>outcomeText = \<lparr>text_content = [], classes = []\<rparr>, effects = []\<rparr>, 0)
     = Some
        (\<lparr>outcomeText = \<lparr>text_content = ''bad format'', classes = [''error-text'']\<rparr>,
          effects =
            [Text [], RemoveClass ''error-text'', RemoveClass ''success-text'', Text [],
             Ajax (upload_request \<lparr>name = ''a.mp3'', size_bytes = 10\<rparr>),
             Text ''bad format'', AddClass ''error-text'']\<rparr>, 1)"
  using error_reply_shown
     [where props = "map_of [(''outcome'', Str ''error''), (''msg'', Str ''bad format'')]"
        and parses = refuses_missing_host
        and w = "\<lparr>outcomeText = \<lparr>text_content = [], classes = []\<rparr>, effects = []\<rparr>"
        and m = "''bad format''"
        and cfg = "\<lparr>ACCEPTED_FILE_TYPES = [''MP3'', ''WAV''],
           MAX_AUDIO_FILE_SIZE = \<lparr>Value = 1000, Name = ''1 kB''\<rparr>\<rparr>"
        and inp = "\<lparr>val = fakepath ''a.mp3'', files = [\<lparr>name = ''a.mp3'', size_bytes = 10\<rparr>]\<rparr>"
        and n = 0]
  by (simp add: change_handler_def dom_defs fakepath_def extension_def split_str_def pop_def
        toUpperCase_def toUpperCase_char_def includes_str_def requests_def navigations_def
        passes_checks_def substring_after_final_dot_def
        settle_def done_callback_def text_value_def)

text \<open>
  Claim C6, as stated, fails in two ways. The callback adds the success class and removes
  nothing: two valid files are selected one after the other, the first reply is an error and
  the second a success, and the element ends with both classes. And the assignment to
  \<^verbatim>\<open>window.location.href\<close> can throw: for the \<^verbatim>\<open>url\<close> \<^verbatim>\<open>http://\<close> the callback ends with
  an exception after the text and the class are written, and the browser goes nowhere.
\<close>

theorem success_reply_on_error_display:
  "run \<lparr>ACCEPTED_FILE_TYPES = [''MP3'', ''WAV''],
        MAX_AUDIO_FILE_SIZE = \<lparr>Value = 1000, Name = ''1 kB''\<rparr>\<rparr>
     refuses_missing_host
     [Change \<lparr>val = fakepath ''a.mp3'', files = [\<lparr>name = ''a.mp3'', size_bytes = 10\<rparr>]\<rparr>,
      Change \<lparr>val = fakepath ''b.wav'', files = [\<lparr>name = ''b.wav'', size_bytes = 20\<rparr>]\<rparr>,
      Settle (Resolved (Data (map_of
        [(''outcome'', Str ''error''), (''msg'', Str ''bad format'')]))),
      Settle (Resolved (Data (map_of
        [(''outcome'', Str ''ok''), (''msg'', Str ''done''), (''url'', Str ''/next'')])))]
     (\<lparr>outcomeText = \<lparr>text_content = [], classes = []\<rparr>, effects = []\<rparr>, 0)
   = Some
      (\<lparr>outcomeText = \<lparr>text_content = ''done'', classes = [''error-text'', ''success-text'']\<rparr>,
        effects =
          [Text [], RemoveClass ''error-text'', RemoveClass ''success-text'', Text [],
           Ajax (upload_request \<lparr>name = ''a.mp3'', size_bytes = 10\<rparr>),
           Text [], RemoveClass ''error-text'', RemoveClass ''success-text'', Text [],
           Ajax (upload_request \<lparr>name = ''b.wav'', size_bytes = 20\<rparr>),
           Text ''bad format'', AddClass ''error-text'',
           Text ''done'', AddClass ''success-text'', Href ''/next'']\<rparr>, 2)
   \<and> has_class ''error-text''
        \<lparr>outcomeText = \<lparr>text_content = ''done'', classes = [''error-text'', ''success-text'']\<rparr>,
         effects = []\<rparr>
   \<and> done_callback refuses_missing_host
       (Data (map_of [(''outcome'', Str ''ok''), (''msg'', Str ''done''), (''url'', Str ''http://'')]))
       \<lparr>outcomeText = \<lparr>text_content = [], classes = []\<rparr>, effects = []\<rparr>
     = (Threw DOMException_SyntaxError,
        \<lparr>outcomeText = \<lparr>text_content = ''done'', classes = [''success-text'']\<rparr>,
         effects = [Text ''done'', AddClass ''success-text'', Href_throws ''http://'']\<rparr>)
   \<and> navigations
        \<lparr>outcomeText = \<lparr>text_content = ''done'', classes = [''success-text'']\<rparr>,
         effects = [Text ''done'', AddClass ''success-text'', Href_throws ''http://'']\<rparr> = []"
  by (simp add: change_handler_def dom_defs fakepath_def extension_def split_str_def pop_def
        toUpperCase_def toUpperCase_char_def includes_str_def requests_def navigations_def
        settle_def done_callback_def location_href_def text_value_def href_string_def
        has_class_def refuses_missing_host_def)

text \<open>
  Claim C6, amended. For a reply whose parsed value has a property \<^verbatim>\<open>outcome\<close> that is not
  the string \<^verbatim>\<open>error\<close> (a missing one included), the callback writes \<^verbatim>\<open>msg\<close> as the text
  (exactly \<^verbatim>\<open>msg\<close> when it is a string), adds the success class and then assigns \<^verbatim>\<open>url\<close> to
  \<^verbatim>\<open>window.location.href\<close>, in this order. When the assigned string parses as an address the
  callback returns and the browser navigates to it; when it does not, the setter throws and
  nothing is navigated. The callback removes no class: the error class is on the element
  afterwards exactly when it was there before. So the element is in the success state
  (success class, no error class) whenever the callback starts without the error class, as
  it does when the reply follows the change handler that sent its request.
\<close>

theorem success_reply_shown:
  assumes "props ''outcome'' \<noteq> Some (Str ''error'')"
  shows "has_class ''success-text'' (snd (done_callback parses (Data props) w))
    \<and> has_class ''error-text'' (snd (done_callback parses (Data props) w))
        = has_class ''error-text'' w
    \<and> (props ''msg'' = Some (Str m) \<longrightarrow>
          text_content (outcomeText (snd (done_callback parses (Data props) w))) = m)
    \<and> (parses (href_string (props ''url'')) \<longrightarrow>
          fst (done_callback parses (Data props) w) = Returned
        \<and> navigations (snd (done_callback parses (Data props) w))
            = navigations w @ [href_string (props ''url'')])
    \<and> (props ''url'' = Some (Str u) \<and> parses u \<longrightarrow>
          fst (done_callback parses (Data props) w) = Returned
        \<and> navigations (snd (done_callback parses (Data props) w)) = navigations w @ [u])
    \<and> (props ''msg'' = Some (Str m) \<and> props ''url'' = Some (Str u) \<and> parses u \<longrightarrow>
          effects (snd (done_callback parses (Data props) w))
            = effects w @ [Text m, AddClass ''success-text'', Href u])
    \<and> (\<not> parses (href_string (props ''url'')) \<longrightarrow>
          fst (done_callback parses (Data props) w) = Threw DOMException_SyntaxError
        \<and> navigations (snd (done_callback parses (Data props) w)) = navigations w)
    \<and> (passes_checks cfg inp \<and> n \<le> length (requests w) \<longrightarrow>
          run cfg parses [Change inp, Settle (Resolved (Data props))] (w, n)
            = Some (snd (done_callback parses (Data props) (snd (change_handler cfg inp w))),
                    Suc n)
        \<and> has_class ''success-text''
            (snd (done_callback parses (Data props) (snd (change_handler cfg inp w))))
        \<and> \<not> has_class ''error-text''
            (snd (done_callback parses (Data props) (snd (change_handler cfg inp w)))))"
proof -
  note r = done_success [of props parses w, OF assms]
  have shown: "text_content (outcomeText (snd (done_callback parses (Data props) w))) = m"
    if "props ''msg'' = Some (Str m)"
    using that by (simp add: r location_href_element text_value_Str dom_defs)
  have goes: "fst (done_callback parses (Data props) w) = Returned
        \<and> navigations (snd (done_callback parses (Data props) w))
            = navigations w @ [href_string (props ''url'')]"
    if "parses (href_string (props ''url''))"
    using that text_value_navigations [of "props ''msg''" w]
    by (simp add: r location_href_def navigations_def dom_defs navigations_of_append)
  have goes_to: "fst (done_callback parses (Data props) w) = Returned
        \<and> navigations (snd (done_callback parses (Data props) w)) = navigations w @ [u]"
    if "props ''url'' = Some (Str u) \<and> parses u"
    using that goes by (simp add: href_string_def)
  have order: "effects (snd (done_callback parses (Data props) w))
            = effects w @ [Text m, AddClass ''success-text'', Href u]"
    if "props ''msg'' = Some (Str m) \<and> props ''url'' = Some (Str u) \<and> parses u"
    using that by (simp add: r location_href_def text_value_Str dom_defs href_string_def)
  have refused: "fst (done_callback parses (Data props) w) = Threw DOMException_SyntaxError
        \<and> navigations (snd (done_callback parses (Data props) w)) = navigations w"
    if "\<not> parses (href_string (props ''url''))"
    using that text_value_navigations [of "props ''msg''" w]
    by (simp add: r location_href_def navigations_def dom_defs navigations_of_append)
  have pass: "run cfg parses [Change inp, Settle (Resolved (Data props))] (w, n)
            = Some (snd (done_callback parses (Data props) (snd (change_handler cfg inp w))),
                    Suc n)
        \<and> has_class ''success-text''
            (snd (done_callback parses (Data props) (snd (change_handler cfg inp w))))
        \<and> \<not> has_class ''error-text''
            (snd (done_callback parses (Data props) (snd (change_handler cfg inp w))))"
    if "passes_checks cfg inp \<and> n \<le> length (requests w)"
  proof -
    from that have ok: "passes_checks cfg inp" and n: "n \<le> length (requests w)"
      by simp_all
    show ?thesis
      using pass_then_reply(1) [OF ok n, of parses "Data props"]
        pass_then_reply(2) [OF ok n]
        done_success_classes [of props parses "snd (change_handler cfg inp w)", OF assms]
      by simp
  qed
  from shown goes goes_to order refused pass
    done_success_classes [of props parses w, OF assms]
  show ?thesis
    by blast
qed

theorem success_reply_shown_witness:
  "map_of [(''outcome'', Str ''ok''), (''msg'', Str ''done''), (''url'', Str ''/next'')] ''outcome''
     \<noteq> Some (Str ''error'')
   \<and> map_of [(''outcome'', Str ''ok''), (''msg'', Str ''done''), (''url'', Str ''/next'')] ''msg''
     = Some (Str ''done'')
   \<and> map_of [(''outcome'', Str ''ok''), (''msg'', Str ''done''), (''url'', Str ''/next'')] ''url''
     = Some (Str ''/next'')
   \<and> refuses_missing_host ''/next''
   \<and> done_callback refuses_missing_host
       (Data (map_of [(''outcome'', Str ''ok''), (''msg'', Str ''done''), (''url'', Str ''/next'')]))
       \<lparr>outcomeText = \<lparr>text_content = [], classes = []\<rparr>, effects = []\<rparr>
     = (Returned,
        \<lparr>outcomeText = \<lparr>text_content = ''done'', classes = [''success-text'']\<rparr>,
         effects = [Text ''done'', AddClass ''success-text'', Href ''/next'']\<rparr>)
   \<and> navigations (snd (done_callback refuses_missing_host
       (Data (map_of [(''outcome'', Str ''ok''), (''msg'', Str ''done''), (''url'', Str ''/next'')]))
       \<lparr>outcomeText = \<lparr>text_content = [], classes = []\<rparr>, effects = []\<rparr>)) = [''/next'']
   \<and> \<not> refuses_missing_host (href_string
         (map_of [(''outcome'', Str ''ok''), (''url'', Str ''http://'')] ''url''))
   \<and> fst (done_callback refuses_missing_host
       (Data (map_of [(''outcome'', Str ''ok''), (''url'', Str ''http://'')]))
       \<lparr>outcomeText = \<lparr>text_content = [], classes = []\<rparr>, effects = []\<rparr>)
     = Threw DOMException_SyntaxError
   \<and> passes_checks
       \<lparr>ACCEPTED_FILE_TYPES = [''MP3'', ''WAV''],
        MAX_AUDIO_FILE_SIZE = \<lparr>Value = 1000, Name = ''1 kB''\<rparr>\<rparr>
       \<lparr>val = fakepath ''a.mp3'', files = [\<lparr>name = ''a.mp3'', size_bytes = 10\<rparr>]\<rparr>
   \<and> (0::nat) \<le> length (requests
        \<lparr>outcomeText = \<lparr>text_content = [], classes = []\<rparr>, effects = []\<rparr>)
   \<and> run \<lparr>ACCEPTED_FILE_TYPES = [''MP3'', ''WAV''],
          MAX_AUDIO_FILE_SIZE = \<lparr>Value = 1000, Name = ''1 kB''\<rparr>\<rparr>
       refuses_missing_host
       [Change \<lparr>val = fakepath ''a.mp3'', files = [\<lparr>name = ''a.mp3'', size_bytes = 10\<rparr>]\<rparr>,
        Settle (Resolved (Data (map_of
          [(''outcome'', Str ''ok''), (''msg'', Str ''done''), (''url'', Str ''/next'')])))]
       (\<lparr>outcomeText = \<lparr>text_content = [], classes = []\<rparr>, effects = []\<rparr>, 0)
     = Some
        (\<lparr>outcomeText = \<lparr>text_content = ''done'', classes = [''success-text'']\<rparr>,
          effects =
            [Text [], RemoveClass ''error-text'', RemoveClass ''success-text'', Text [],
             Ajax (upload_request \<lparr>name = ''a.mp3'', size_bytes = 10\<rparr>),
             Text ''done'', AddClass ''success-text'', Href ''/next'']\<rparr>, 1)"
  using success_reply_shown
     [where props = "map_of [(''outcome'', Str ''ok''), (''msg'', Str ''done''), (''url'', Str ''/next'')]"
        and parses = refuses_missing_host
        and w = "\<lparr>outcomeText = \<lparr>text_content = [], classes = []\<rparr>, effects = []\<rparr>"
        and m = "''done''" and u = "''/next''"
        and cfg = "\<lparr>ACCEPTED_FILE_TYPES = [''MP3'', ''WAV''],
           MAX_AUDIO_FILE_SIZE = \<lparr>Value = 1000, Name = ''1 kB''\<rparr>\<rparr>"
        and inp = "\<lparr>val = fakepath ''a.mp3'', files = [\<lparr>name = ''a.mp3'', size_bytes = 10\<rparr>]\<rparr>"
        and n = 0]
    success_reply_shown
     [where props = "map_of [(''outcome'', Str ''ok''), (''url'', Str ''http://'')]"
        and parses = refuses_missing_host
        and w = "\<lparr>outcomeText = \<lparr>text_content = [], classes = []\<rparr>, effects = []\<rparr>"]
  by (simp add: change_handler_def dom_defs fakepath_def extension_def split_str_def pop_def
        toUpperCase_def toUpperCase_char_def includes_str_def requests_def navigations_def
        passes_checks_def substring_after_final_dot_def refuses_missing_host_def
        settle_def done_callback_def location_href_def text_value_def href_string_def)

text \<open>
  Claim C10, as stated, fails in its last part: the assignment is made after the text and
  the success class are written, but the element need not be in the success state then. A
  valid file is selected and its request is sent; then the selection is cleared, which
  leaves the error class; then the reply, a success without \<^verbatim>\<open>url\<close>, arrives. When
  \<^verbatim>\<open>undefined\<close> is assigned, the last write, the element carries both classes.
\<close>

theorem navigation_from_both_classes:
  "run \<lparr>ACCEPTED_FILE_TYPES = [''MP3'', ''WAV''],
        MAX_AUDIO_FILE_SIZE = \<lparr>Value = 1000, Name = ''1 kB''\<rparr>\<rparr>
     refuses_missing_host
     [Change \<lparr>val = fakepath ''a.mp3'', files = [\<lparr>name = ''a.mp3'', size_bytes = 10\<rparr>]\<rparr>,
      Change \<lparr>val = [], files = []\<rparr>,
      Settle (Resolved (Data (map_of [(''outcome'', Str ''ok''), (''msg'', Str ''done'')])))]
     (\<lparr>outcomeText = \<lparr>text_content = [], classes = []\<rparr>, effects = []\<rparr>, 0)
   = Some
      (\<lparr>outcomeText = \<lparr>text_content = ''done'', classes = [''error-text'', ''success-text'']\<rparr>,
        effects =
          [Text [], RemoveClass ''error-text'', RemoveClass ''success-text'', Text [],
           Ajax (upload_request \<lparr>name = ''a.mp3'', size_bytes = 10\<rparr>),
           Text [], RemoveClass ''error-text'', RemoveClass ''success-text'',
           Text ''You must select a file.'', AddClass ''error-text'',
           Text ''done'', AddClass ''success-text'', Href ''undefined'']\<rparr>, 1)
   \<and> both_classes (replay
          [Text [], RemoveClass ''error-text'', RemoveClass ''success-text'', Text [],
           Ajax (upload_request \<lparr>name = ''a.mp3'', size_bytes = 10\<rparr>),
           Text [], RemoveClass ''error-text'', RemoveClass ''success-text'',
           Text ''You must select a file.'', AddClass ''error-text'',
           Text ''done'', AddClass ''success-text'']
          \<lparr>text_content = [], classes = []\<rparr>)"
  by (simp add: change_handler_def dom_defs fakepath_def extension_def split_str_def pop_def
        toUpperCase_def toUpperCase_char_def includes_str_def requests_def
        settle_def done_callback_def location_href_def text_value_def href_string_def
        both_classes_def replay_def refuses_missing_host_def)

text \<open>
  Claim C10, amended. For a reply whose \<^verbatim>\<open>outcome\<close> is not the string \<^verbatim>\<open>error\<close>, the
  assignment to \<^verbatim>\<open>window.location.href\<close> is executed whatever \<^verbatim>\<open>url\<close> is: the string assigned
  is the reply's \<^verbatim>\<open>url\<close>, and \<^verbatim>\<open>undefined\<close> when the reply has none, and the navigation to it
  starts when the string parses as an address. The assignment is the last write of the
  callback: at that point the text (exactly \<^verbatim>\<open>msg\<close> when it is a string) and the success
  class are on the element, which is in the success state (no error class) when the callback
  started without the error class.
\<close>

theorem navigation_unconditional:
  assumes "props ''outcome'' \<noteq> Some (Str ''error'')"
  shows "assignments (snd (done_callback parses (Data props) w))
           = assignments w @ [href_string (props ''url'')]
    \<and> effects (snd (done_callback parses (Data props) w))
           = effects (text_value (props ''msg'') w)
               @ [AddClass ''success-text'',
                  if parses (href_string (props ''url''))
                  then Href (href_string (props ''url''))
                  else Href_throws (href_string (props ''url''))]
    \<and> (props ''url'' = Some (Str u) \<longrightarrow>
          assignments (snd (done_callback parses (Data props) w)) = assignments w @ [u])
    \<and> (props ''url'' = Some (Str u) \<and> parses u \<longrightarrow>
          navigations (snd (done_callback parses (Data props) w)) = navigations w @ [u])
    \<and> (props ''url'' = None \<longrightarrow>
          assignments (snd (done_callback parses (Data props) w))
            = assignments w @ [''undefined''])
    \<and> (props ''url'' = None \<and> parses ''undefined'' \<longrightarrow>
          navigations (snd (done_callback parses (Data props) w))
            = navigations w @ [''undefined''])
    \<and> replay (butlast (drop (length (effects w))
                 (effects (snd (done_callback parses (Data props) w)))))
          (outcomeText w)
        = outcomeText (snd (done_callback parses (Data props) w))
    \<and> has_class ''success-text'' (snd (done_callback parses (Data props) w))
    \<and> (props ''msg'' = Some (Str m) \<longrightarrow>
          text_content (outcomeText (snd (done_callback parses (Data props) w))) = m)
    \<and> (\<not> has_class ''error-text'' w \<longrightarrow>
          \<not> has_class ''error-text'' (snd (done_callback parses (Data props) w)))"
proof -
  note r = done_success [of props parses w, OF assms]
  let ?u = "href_string (props ''url'')"
  have asg: "assignments (snd (done_callback parses (Data props) w)) = assignments w @ [?u]"
    using text_value_assignments [of "props ''msg''" w]
    by (simp add: r location_href_def assignments_def dom_defs assignments_of_append)
  have order: "effects (snd (done_callback parses (Data props) w))
           = effects (text_value (props ''msg'') w)
               @ [AddClass ''success-text'', if parses ?u then Href ?u else Href_throws ?u]"
    by (simp add: r location_href_def dom_defs)
  have nav: "navigations (snd (done_callback parses (Data props) w)) = navigations w @ [?u]"
    if "parses ?u"
    using that text_value_navigations [of "props ''msg''" w]
    by (simp add: r location_href_def navigations_def dom_defs navigations_of_append)
  have asg_url: "assignments (snd (done_callback parses (Data props) w)) = assignments w @ [u]"
    if "props ''url'' = Some (Str u)"
    using that asg by (simp add: href_string_def)
  have nav_url: "navigations (snd (done_callback parses (Data props) w)) = navigations w @ [u]"
    if "props ''url'' = Some (Str u) \<and> parses u"
    using that nav by (simp add: href_string_def)
  have asg_none: "assignments (snd (done_callback parses (Data props) w))
            = assignments w @ [''undefined'']"
    if "props ''url'' = None"
    using that asg by (simp add: href_string_def)
  have nav_none: "navigations (snd (done_callback parses (Data props) w))
            = navigations w @ [''undefined'']"
    if "props ''url'' = None \<and> parses ''undefined''"
    using that nav by (simp add: href_string_def)
  have before: "replay (butlast (drop (length (effects w))
                 (effects (snd (done_callback parses (Data props) w)))))
          (outcomeText w)
        = outcomeText (snd (done_callback parses (Data props) w))"
  proof -
    let ?tv = "drop (length (effects w)) (effects (text_value (props ''msg'') w))"
    have "drop (length (effects w)) (effects (snd (done_callback parses (Data props) w)))
            = ?tv @ [AddClass ''success-text'', if parses ?u then Href ?u else Href_throws ?u]"
      using text_value_replay(1) [of w "props ''msg''"] by (simp add: order)
    then have "butlast (drop (length (effects w))
                 (effects (snd (done_callback parses (Data props) w))))
            = ?tv @ [AddClass ''success-text'']"
      by (simp add: butlast_append)
    then have "replay (butlast (drop (length (effects w))
                 (effects (snd (done_callback parses (Data props) w))))) (outcomeText w)
            = apply_effect (AddClass ''success-text'')
                (outcomeText (text_value (props ''msg'') w))"
      using text_value_replay(2) [of "props ''msg''" w]
      by (simp add: replay_def)
    then show ?thesis
      by (simp add: r location_href_element dom_defs)
  qed
  have shown: "text_content (outcomeText (snd (done_callback parses (Data props) w))) = m"
    if "props ''msg'' = Some (Str m)"
    using that by (simp add: r location_href_element text_value_Str dom_defs)
  have clean: "\<not> has_class ''error-text'' (snd (done_callback parses (Data props) w))"
    if "\<not> has_class ''error-text'' w"
    using that done_success_classes(2) [of props parses w, OF assms] by simp
  from asg order asg_url nav_url asg_none nav_none before shown clean
    done_success_classes(1) [of props parses w, OF assms]
  show ?thesis
    by blast
qed

theorem navigation_unconditional_witness:
  "map_of [(''outcome'', Str ''ok''), (''msg'', Str ''done'')] ''outcome'' \<noteq> Some (Str ''error'')
   \<and> map_of [(''outcome'', Str ''ok''), (''msg'', Str ''done'')] ''url'' = None
   \<and> refuses_missing_host ''undefined''
   \<and> \<not> has_class ''error-text''
        \<lparr>outcomeText = \<lparr>text_content = [], classes = []\<rparr>, effects = []\<rparr>
   \<and> done_callback refuses_missing_host
       (Data (map_of [(''outcome'', Str ''ok''), (''msg'', Str ''done'')]))
       \<lparr>outcomeText = \<lparr>text_content = [], classes = []\<rparr>, effects = []\<rparr>
     = (Returned,
        \<lparr>outcomeText = \<lparr>text_content = ''done'', classes = [''success-text'']\<rparr>,
         effects = [Text ''done'', AddClass ''success-text'', Href ''undefined'']\<rparr>)
   \<and> navigations (snd (done_callback refuses_missing_host
       (Data (map_of [(''outcome'', Str ''ok''), (''msg'', Str ''done'')]))
       \<lparr>outcomeText = \<lparr>text_content = [], classes = []\<rparr>, effects = []\<rparr>))
     = [''undefined'']
   \<and> map_of [(''outcome'', Str ''ok''), (''msg'', Str ''done''), (''url'', Str ''/next'')] ''url''
     = Some (Str ''/next'')
   \<and> refuses_missing_host ''/next''
   \<and> navigations (snd (done_callback refuses_missing_host
       (Data (map_of [(''outcome'', Str ''ok''), (''msg'', Str ''done''), (''url'', Str ''/next'')]))
       \<lparr>outcomeText = \<lparr>text_content = [], classes = []\<rparr>, effects = []\<rparr>))
     = [''/next'']"
  using navigation_unconditional
     [where props = "map_of [(''outcome'', Str ''ok''), (''msg'', Str ''done'')]"
        and parses = refuses_missing_host
        and w = "\<lparr>outcomeText = \<lparr>text_content = [], classes = []\<rparr>, effects = []\<rparr>"
        and m = "''done''"]
    navigation_unconditional
     [where props = "map_of [(''outcome'', Str ''ok''), (''msg'', Str ''done''), (''url'', Str ''/next'')]"
        and parses = refuses_missing_host
        and w = "\<lparr>outcomeText = \<lparr>text_content = [], classes = []\<rparr>, effects = []\<rparr>"
        and m = "''done''" and u = "''/next''"]
  by (simp add: done_callback_def location_href_def text_value_def dom_defs navigations_def
        href_string_def has_class_def refuses_missing_host_def)

subsection \<open>The style classes\<close>

lemma replay_append: "replay (xs @ ys) el = replay ys (replay xs el)"
  by (simp add: replay_def)

lemma replay_no_success:
  "''success-text'' \<notin> set (classes el) \<Longrightarrow> AddClass ''success-text'' \<notin> set es \<Longrightarrow>
   ''success-text'' \<notin> set (classes (replay es el))"
proof (induction es arbitrary: el)
  case Nil
  then show ?case by (simp add: replay_def)
next
  case (Cons e es)
  have "''success-text'' \<notin> set (classes (apply_effect e el))"
    using Cons.prems by (cases e) auto
  moreover have "replay (e # es) el = replay es (apply_effect e el)"
    by (simp add: replay_def)
  ultimately show ?case
    using Cons.IH Cons.prems(2) by simp
qed

lemma reset_no_success:
  "''success-text'' \<notin> set (classes (replay
      [Text [], RemoveClass ''error-text'', RemoveClass ''success-text''] el))"
  by (simp add: replay_def)

lemma change_handler_shape:
  obtains rest where
    "effects (snd (change_handler cfg inp w)) =
       effects w @ [Text [], RemoveClass ''error-text'', RemoveClass ''success-text''] @ rest"
    and "AddClass ''success-text'' \<notin> set rest"
    and "outcomeText (snd (change_handler cfg inp w)) =
       replay ([Text [], RemoveClass ''error-text'', RemoveClass ''success-text''] @ rest)
         (outcomeText w)"
proof (cases "val inp = []")
  case True
  show ?thesis
    by (rule that [of "[Text ''You must select a file.'', AddClass ''error-text'']"])
       (simp_all add: change_no_file [OF True] replay_def)
next
  case selected: False
  show ?thesis
  proof (cases "files inp")
    case Nil
    show ?thesis
      by (rule that [of "[]"]) (simp_all add: change_no_files [OF selected Nil] replay_def)
  next
    case (Cons f fs)
    let ?e = "toUpperCase (substring_after_final_dot (name f))"
    have ext: "extension (files inp) = Inr ?e"
      using Cons by (simp add: extension_spec)
    consider (bad) "?e \<notin> set (ACCEPTED_FILE_TYPES cfg)"
      | (big) "?e \<in> set (ACCEPTED_FILE_TYPES cfg)"
              "size_bytes f > Value (MAX_AUDIO_FILE_SIZE cfg)"
      | (ok) "?e \<in> set (ACCEPTED_FILE_TYPES cfg)"
              "size_bytes f \<le> Value (MAX_AUDIO_FILE_SIZE cfg)"
      by fastforce
    then show ?thesis
    proof cases
      case bad
      show ?thesis
        by (rule that [of "[Text (type_message cfg), AddClass ''error-text'']"])
           (simp_all add: change_bad_type [OF selected Cons ext bad] replay_def)
    next
      case big
      show ?thesis
        by (rule that [of "[Text (size_message cfg), AddClass ''error-text'']"])
           (simp_all add: change_too_big [OF selected Cons ext big] replay_def)
    next
      case ok
      show ?thesis
        by (rule that [of "[Text [], Ajax (upload_request f)]"])
           (simp_all add: change_upload [OF selected Cons ext ok] replay_def)
    qed
  qed
qed

lemma change_handler_style_classes:
  "has_class ''success-text'' (snd (change_handler cfg inp w)) = False"
  "has_class ''error-text'' (snd (change_handler cfg inp w))
     = has_class ''error-text'' (snd (change_handler cfg inp w2))"
proof -
  have "has_class ''success-text'' (snd (change_handler cfg inp w)) = False
    \<and> has_class ''error-text'' (snd (change_handler cfg inp w))
     = has_class ''error-text'' (snd (change_handler cfg inp w2))"
  proof (cases "val inp = []")
    case True
    show ?thesis
      by (simp add: change_no_file [OF True] has_class_def)
  next
    case selected: False
    show ?thesis
    proof (cases "files inp")
      case Nil
      show ?thesis
        by (simp add: change_no_files [OF selected Nil] has_class_def)
    next
      case (Cons f fs)
      let ?e = "toUpperCase (substring_after_final_dot (name f))"
      have ext: "extension (files inp) = Inr ?e"
        using Cons by (simp add: extension_spec)
      consider (bad) "?e \<notin> set (ACCEPTED_FILE_TYPES cfg)"
        | (big) "?e \<in> set (ACCEPTED_FILE_TYPES cfg)"
                "size_bytes f > Value (MAX_AUDIO_FILE_SIZE cfg)"
        | (ok) "?e \<in> set (ACCEPTED_FILE_TYPES cfg)"
                "size_bytes f \<le> Value (MAX_AUDIO_FILE_SIZE cfg)"
        by fastforce
      then show ?thesis
      proof cases
        case bad
        show ?thesis
          by (simp add: change_bad_type [OF selected Cons ext bad] has_class_def)
      next
        case big
        show ?thesis
          by (simp add: change_too_big [OF selected Cons ext big] has_class_def)
      next
        case ok
        show ?thesis
          by (simp add: change_upload [OF selected Cons ext ok] has_class_def)
      qed
    qed
  qed
  then show "has_class ''success-text'' (snd (change_handler cfg inp w)) = False"
    and "has_class ''error-text'' (snd (change_handler cfg inp w))
     = has_class ''error-text'' (snd (change_handler cfg inp w2))"
    by simp_all
qed

text \<open>
  Claim C7, as stated, fails: the reply callback adds its class without removing the other
  one, and nothing holds a reply back while a later pass runs. A valid file is selected and
  its request is sent; before the reply a second file, of a type that is not accepted, is
  selected and rejected; then the first request's reply arrives with a success. The outcome
  element ends with both classes.
\<close>

theorem stale_reply_sets_both_classes:
  "run \<lparr>ACCEPTED_FILE_TYPES = [''MP3'', ''WAV''],
        MAX_AUDIO_FILE_SIZE = \<lparr>Value = 1000, Name = ''1 kB''\<rparr>\<rparr>
     refuses_missing_host
     [Change \<lparr>val = fakepath ''song.mp3'', files = [\<lparr>name = ''song.mp3'', size_bytes = 10\<rparr>]\<rparr>,
      Change \<lparr>val = fakepath ''notes.txt'', files = [\<lparr>name = ''notes.txt'', size_bytes = 10\<rparr>]\<rparr>,
      Settle (Resolved (Data (map_of
        [(''outcome'', Str ''ok''), (''msg'', Str ''done''), (''url'', Str ''/next'')])))]
     (\<lparr>outcomeText = \<lparr>text_content = [], classes = []\<rparr>, effects = []\<rparr>, 0)
   = Some
      (\<lparr>outcomeText = \<lparr>text_content = ''done'', classes = [''error-text'', ''success-text'']\<rparr>,
        effects =
          [Text [], RemoveClass ''error-text'', RemoveClass ''success-text'', Text [],
           Ajax (upload_request \<lparr>name = ''song.mp3'', size_bytes = 10\<rparr>),
           Text [], RemoveClass ''error-text'', RemoveClass ''success-text'',
           Text ''File uploaded not of accepted file type. Accepted: MP3,WAV.'',
           AddClass ''error-text'',
           Text ''done'', AddClass ''success-text'', Href ''/next'']\<rparr>, 1)
   \<and> both_classes \<lparr>text_content = ''done'', classes = [''error-text'', ''success-text'']\<rparr>"
  by (simp add: change_handler_def dom_defs fakepath_def extension_def split_str_def pop_def
        toUpperCase_def toUpperCase_char_def includes_str_def type_message_def requests_def
        settle_def done_callback_def text_value_def href_string_def both_classes_def
        refuses_missing_host_def)

text \<open>
  Claim C7, amended. Every run of the change handler starts with the reset (text cleared,
  both classes removed). From the reset on, through every later write of the handler and
  when it ends, the outcome element never has both classes (it never has the success class),
  and whether it has the error class at the end does not depend on the classes it had
  before. The reply callback keeps the classes exclusive when it runs on an element that
  has neither class, as the handler of its own request left it.
\<close>

theorem reset_keeps_classes_apart:
  "take 3 (drop (length (effects w)) (effects (snd (change_handler cfg inp w))))
     = [Text [], RemoveClass ''error-text'', RemoveClass ''success-text'']
   \<and> outcomeText (snd (change_handler cfg inp w))
     = replay (drop (length (effects w)) (effects (snd (change_handler cfg inp w))))
         (outcomeText w)
   \<and> (3 \<le> k \<longrightarrow>
        \<not> both_classes
            (replay (take k (drop (length (effects w)) (effects (snd (change_handler cfg inp w)))))
               (outcomeText w)))
   \<and> \<not> has_class ''success-text'' (snd (change_handler cfg inp w))
   \<and> has_class ''error-text'' (snd (change_handler cfg inp w))
       = has_class ''error-text'' (snd (change_handler cfg inp w2))
   \<and> (\<not> has_class ''error-text'' w \<and> \<not> has_class ''success-text'' w \<longrightarrow>
        \<not> both_classes (outcomeText (snd (done_callback parses d w))))"
proof -
  let ?reset = "[Text [], RemoveClass ''error-text'', RemoveClass ''success-text'']"
  obtain rest where new: "effects (snd (change_handler cfg inp w)) = effects w @ ?reset @ rest"
    and quiet: "AddClass ''success-text'' \<notin> set rest"
    and state: "outcomeText (snd (change_handler cfg inp w))
                  = replay (?reset @ rest) (outcomeText w)"
    by (rule change_handler_shape)
  have first: "take 3 (drop (length (effects w)) (effects (snd (change_handler cfg inp w))))
     = ?reset"
    by (simp add: new)
  have final: "outcomeText (snd (change_handler cfg inp w))
     = replay (drop (length (effects w)) (effects (snd (change_handler cfg inp w))))
         (outcomeText w)"
    by (simp add: new state)
  have during: "\<not> both_classes
            (replay (take k (drop (length (effects w)) (effects (snd (change_handler cfg inp w)))))
               (outcomeText w))"
    if "3 \<le> k"
  proof -
    define j where "j = k - 3"
    have kj: "k = Suc (Suc (Suc j))"
      using that by (simp add: j_def)
    have parts: "take k (?reset @ rest) = ?reset @ take j rest"
      unfolding kj by simp
    have quiet_j: "AddClass ''success-text'' \<notin> set (take j rest)"
      using quiet by (auto dest: in_set_takeD)
    have clean: "''success-text'' \<notin> set (classes (replay ?reset (outcomeText w)))"
      by (rule reset_no_success)
    have "''success-text'' \<notin> set (classes
        (replay (take j rest) (replay ?reset (outcomeText w))))"
      by (rule replay_no_success [OF clean quiet_j])
    then have "''success-text'' \<notin> set (classes
        (replay (take k (?reset @ rest)) (outcomeText w)))"
      unfolding parts replay_append .
    then show ?thesis
      by (simp add: new both_classes_def)
  qed
  have callback: "\<not> both_classes (outcomeText (snd (done_callback parses d w)))"
    if "\<not> has_class ''error-text'' w \<and> \<not> has_class ''success-text'' w"
    using that
    by (cases d)
       (auto simp: done_callback_def dom_defs text_value_classes has_class_def both_classes_def)
  from first final during callback change_handler_style_classes(1) [of cfg inp w]
    change_handler_style_classes(2) [of cfg inp w w2]
  show ?thesis
    by blast
qed

theorem reset_keeps_classes_apart_witness:
  "(3::nat) \<le> 4
   \<and> \<not> both_classes (replay (take 4 (drop
         (length (effects
            \<lparr>outcomeText = \<lparr>text_content = ''done'', classes = [''error-text'', ''success-text'']\<rparr>,
             effects = []\<rparr>))
         (effects (snd (change_handler
            \<lparr>ACCEPTED_FILE_TYPES = [''MP3'', ''WAV''],
             MAX_AUDIO_FILE_SIZE = \<lparr>Value = 1000, Name = ''1 kB''\<rparr>\<rparr>
            \<lparr>val = fakepath ''notes.txt'', files = [\<lparr>name = ''notes.txt'', size_bytes = 10\<rparr>]\<rparr>
            \<lparr>outcomeText = \<lparr>text_content = ''done'', classes = [''error-text'', ''success-text'']\<rparr>,
             effects = []\<rparr>)))))
       (outcomeText
          \<lparr>outcomeText = \<lparr>text_content = ''done'', classes = [''error-text'', ''success-text'']\<rparr>,
           effects = []\<rparr>))
   \<and> \<not> has_class ''error-text''
         \<lparr>outcomeText = \<lparr>text_content = [], classes = []\<rparr>, effects = []\<rparr>
   \<and> \<not> has_class ''success-text''
         \<lparr>outcomeText = \<lparr>text_content = [], classes = []\<rparr>, effects = []\<rparr>
   \<and> \<not> both_classes (outcomeText (snd (done_callback refuses_missing_host
         (Data (map_of [(''outcome'', Str ''ok''), (''msg'', Str ''done''), (''url'', Str ''/next'')]))
         \<lparr>outcomeText = \<lparr>text_content = [], classes = []\<rparr>, effects = []\<rparr>)))"
  using reset_keeps_classes_apart
     [of "\<lparr>outcomeText = \<lparr>text_content = ''done'', classes = [''error-text'', ''success-text'']\<rparr>,
           effects = []\<rparr>"
         "\<lparr>ACCEPTED_FILE_TYPES = [''MP3'', ''WAV''],
           MAX_AUDIO_FILE_SIZE = \<lparr>Value = 1000, Name = ''1 kB''\<rparr>\<rparr>"
         "\<lparr>val = fakepath ''notes.txt'', files = [\<lparr>name = ''notes.txt'', size_bytes = 10\<rparr>]\<rparr>"
         4
         "\<lparr>outcomeText = \<lparr>text_content = [], classes = []\<rparr>, effects = []\<rparr>"
         refuses_missing_host
         "Data (map_of [(''outcome'', Str ''ok''), (''msg'', Str ''done''), (''url'', Str ''/next'')])"]
    reset_keeps_classes_apart
     [of "\<lparr>outcomeText = \<lparr>text_content = [], classes = []\<rparr>, effects = []\<rparr>"
         "\<lparr>ACCEPTED_FILE_TYPES = [''MP3'', ''WAV''],
           MAX_AUDIO_FILE_SIZE = \<lparr>Value = 1000, Name = ''1 kB''\<rparr>\<rparr>"
         "\<lparr>val = fakepath ''notes.txt'', files = [\<lparr>name = ''notes.txt'', size_bytes = 10\<rparr>]\<rparr>"
         4
         "\<lparr>outcomeText = \<lparr>text_content = [], classes = []\<rparr>, effects = []\<rparr>"
         refuses_missing_host
         "Data (map_of [(''outcome'', Str ''ok''), (''msg'', Str ''done''), (''url'', Str ''/next'')])"]
  by (simp add: has_class_def)

subsection \<open>Requests that fail\<close>



end
